theory Spec2Isabelle
  imports Complex_Main "HOL-Library.Word"
begin

unbundle bit_operations_syntax

section \<open>Return codes and type identifiers\<close>

text \<open>
  The functions of \<^verbatim>\<open>libhdf5/hdf5file.c\<close> return an \<^verbatim>\<open>int\<close>: zero for success, a
  negative netCDF error code otherwise. The codes are those of \<^verbatim>\<open>netcdf.h\<close>.
\<close>

abbreviation (input) NC_NOERR :: int where "NC_NOERR \<equiv> 0"
abbreviation (input) NC_EBADID :: int where "NC_EBADID \<equiv> -33"
abbreviation (input) NC_EINVAL :: int where "NC_EINVAL \<equiv> -36"
abbreviation (input) NC_ENOTINDEFINE :: int where "NC_ENOTINDEFINE \<equiv> -38"
abbreviation (input) NC_EINDEFINE :: int where "NC_EINDEFINE \<equiv> -39"
abbreviation (input) NC_EHDFERR :: int where "NC_EHDFERR \<equiv> -101"
abbreviation (input) NC_ECANTWRITE :: int where "NC_ECANTWRITE \<equiv> -103"
abbreviation (input) NC_EATTMETA :: int where "NC_EATTMETA \<equiv> -107"
abbreviation (input) NC_EBADGRPID :: int where "NC_EBADGRPID \<equiv> -116"
abbreviation (input) NC_EBADTYPID :: int where "NC_EBADTYPID \<equiv> -117"

text \<open>The atomic type identifiers (\<^verbatim>\<open>nc_type\<close> is an \<^verbatim>\<open>int\<close>).\<close>

abbreviation (input) NC_NAT :: int where "NC_NAT \<equiv> 0"
abbreviation (input) NC_BYTE :: int where "NC_BYTE \<equiv> 1"
abbreviation (input) NC_CHAR :: int where "NC_CHAR \<equiv> 2"
abbreviation (input) NC_SHORT :: int where "NC_SHORT \<equiv> 3"
abbreviation (input) NC_INT :: int where "NC_INT \<equiv> 4"
abbreviation (input) NC_FLOAT :: int where "NC_FLOAT \<equiv> 5"
abbreviation (input) NC_DOUBLE :: int where "NC_DOUBLE \<equiv> 6"
abbreviation (input) NC_UBYTE :: int where "NC_UBYTE \<equiv> 7"
abbreviation (input) NC_USHORT :: int where "NC_USHORT \<equiv> 8"
abbreviation (input) NC_UINT :: int where "NC_UINT \<equiv> 9"
abbreviation (input) NC_INT64 :: int where "NC_INT64 \<equiv> 10"
abbreviation (input) NC_UINT64 :: int where "NC_UINT64 \<equiv> 11"
abbreviation (input) NC_STRING :: int where "NC_STRING \<equiv> 12"

section \<open>The table of reserved attributes\<close>

text \<open>
  \<^verbatim>\<open>NC_reservedatt\<close> pairs a name with a bit mask of flags. The numeric values of the
  three flag bits are declared outside this file, so the mask is kept as the set of the
  flags that are or-ed together; \<^verbatim>\<open>ra->flags & NAMEONLYFLAG\<close> is membership.
\<close>

datatype attflag = READONLYFLAG | NAMEONLYFLAG | DIMSCALEFLAG

record NC_reservedatt =
  name :: string
  flags :: "attflag set"

definition NRESERVED :: int where
  "NRESERVED = 11"

definition NC_reserved :: "NC_reservedatt list" where
  "NC_reserved =
    [\<lparr>name = ''CLASS'', flags = {READONLYFLAG, DIMSCALEFLAG}\<rparr>,
     \<lparr>name = ''DIMENSION_LIST'', flags = {READONLYFLAG, DIMSCALEFLAG}\<rparr>,
     \<lparr>name = ''NAME'', flags = {READONLYFLAG, DIMSCALEFLAG}\<rparr>,
     \<lparr>name = ''REFERENCE_LIST'', flags = {READONLYFLAG, DIMSCALEFLAG}\<rparr>,
     \<lparr>name = ''_Format'', flags = {READONLYFLAG}\<rparr>,
     \<lparr>name = ''_IsNetcdf4'', flags = {READONLYFLAG, NAMEONLYFLAG}\<rparr>,
     \<lparr>name = ''_NCProperties'', flags = {READONLYFLAG, NAMEONLYFLAG}\<rparr>,
     \<lparr>name = ''_Netcdf4Coordinates'', flags = {READONLYFLAG, DIMSCALEFLAG}\<rparr>,
     \<lparr>name = ''_Netcdf4Dimid'', flags = {READONLYFLAG, DIMSCALEFLAG}\<rparr>,
     \<lparr>name = ''_SuperblockVersion'', flags = {READONLYFLAG, NAMEONLYFLAG}\<rparr>,
     \<lparr>name = ''_nc3_strict'', flags = {READONLYFLAG}\<rparr>]"

text \<open>
  \<^verbatim>\<open>strcmp\<close> compares two strings byte by byte as unsigned characters. Only the sign of
  its result is specified, so the model returns \<open>-1\<close>, \<open>0\<close> or \<open>1\<close>. A C string is a
  \<open>char list\<close> without a NUL byte.
\<close>

fun strcmp :: "string \<Rightarrow> string \<Rightarrow> int" where
  "strcmp [] [] = 0"
| "strcmp [] (b # bs) = -1"
| "strcmp (a # as) [] = 1"
| "strcmp (a # as) (b # bs) =
     (if a = b then strcmp as bs
      else if (of_char a :: nat) < of_char b then -1 else 1)"

text \<open>
  The \<^verbatim>\<open>for(;;)\<close> loop of \<^verbatim>\<open>NC_findreserved\<close>, with the loop variables \<open>L\<close> and \<open>R\<close> as
  arguments. \<open>None\<close> is the \<^verbatim>\<open>NULL\<close> result.
\<close>

function NC_findreserved_loop :: "string \<Rightarrow> int \<Rightarrow> int \<Rightarrow> NC_reservedatt option" where
  "NC_findreserved_loop nm L R =
     (if L > R then None
      else
        let m = (L + R) div 2;
            p = NC_reserved ! nat m;
            cmp = strcmp (name p) nm
        in if cmp = 0 then Some p
           else if cmp < 0 then NC_findreserved_loop nm (m + 1) R
           else NC_findreserved_loop nm L (m - 1))"
  by pat_completeness auto
termination
  by (relation "measure (\<lambda>(nm, L, R). nat (R - L + 1))") auto

declare NC_findreserved_loop.simps [simp del]

definition NC_findreserved :: "string \<Rightarrow> NC_reservedatt option" where
  "NC_findreserved nm =
     (let n = NRESERVED; L = 0; R = n - 1 in NC_findreserved_loop nm L R)"

section \<open>Classification of native types\<close>

text \<open>
  A type handle of the storage engine is described by what the engine answers about it:
  its class (\<open>H5T_NO_CLASS\<close> is the negative error value), the three-valued
  \<^verbatim>\<open>htri_t\<close> answers of \<^verbatim>\<open>H5Tis_variable_str\<close> and of \<^verbatim>\<open>H5Tequal\<close> against each native
  constant (negative: the call failed, zero: false, positive: true), and its size in
  bytes (zero: the call failed).
\<close>

datatype H5T_class_t =
  H5T_NO_CLASS | H5T_INTEGER | H5T_FLOAT | H5T_TIME | H5T_STRING | H5T_BITFIELD
  | H5T_OPAQUE | H5T_COMPOUND | H5T_REFERENCE | H5T_ENUM | H5T_VLEN | H5T_ARRAY

datatype native_type =
  H5T_NATIVE_SCHAR | H5T_NATIVE_SHORT | H5T_NATIVE_INT | H5T_NATIVE_FLOAT
  | H5T_NATIVE_DOUBLE | H5T_NATIVE_UCHAR | H5T_NATIVE_USHORT | H5T_NATIVE_UINT
  | H5T_NATIVE_LLONG | H5T_NATIVE_ULLONG

record hid_type =
  H5Tget_class :: H5T_class_t
  H5Tis_variable_str :: int
  H5Tequal :: "native_type \<Rightarrow> int"
  H5Tget_size :: nat

text \<open>
  The tail of \<^verbatim>\<open>get_netcdf_type\<close>: when the last comparison left \<^verbatim>\<open>equal\<close> at zero, the
  file's list of user-defined types is searched. \<^verbatim>\<open>nc4_rec_find_hdf_type\<close> is defined
  in another file; it is a parameter here, giving the identifier of the type found.
\<close>

definition get_netcdf_type_tail ::
  "(hid_type \<Rightarrow> int option) \<Rightarrow> hid_type \<Rightarrow> native_type list \<Rightarrow> int \<Rightarrow> native_type list \<times> int \<times> int" where
  "get_netcdf_type_tail nc4_rec_find_hdf_type t tested equal =
     (if equal = 0 then
        (case nc4_rec_find_hdf_type t of
           Some type_id \<Rightarrow> (tested, NC_NOERR, type_id)
         | None \<Rightarrow> (tested, NC_EBADTYPID, NC_NAT))
      else (tested, NC_EBADTYPID, NC_NAT))"

text \<open>
  \<^verbatim>\<open>get_netcdf_type\<close>. The result is the list of native constants handed to \<^verbatim>\<open>H5Tequal\<close>,
  in the order of the calls, the return code, and the content of \<^verbatim>\<open>*xtype\<close> afterwards
  (\<open>xtype\<close> is its content before the call, kept on the paths that do not write it).
\<close>

definition get_netcdf_type ::
  "(hid_type \<Rightarrow> int option) \<Rightarrow> hid_type \<Rightarrow> int \<Rightarrow> native_type list \<times> int \<times> int" where
  "get_netcdf_type nc4_rec_find_hdf_type t xtype =
     (if H5Tget_class t = H5T_NO_CLASS then ([], NC_EHDFERR, xtype)
      else if H5Tget_class t = H5T_STRING then
        (if H5Tis_variable_str t < 0 then ([], NC_EHDFERR, xtype)
         else if H5Tis_variable_str t \<noteq> 0 then ([], NC_NOERR, NC_STRING)
         else ([], NC_NOERR, NC_CHAR))
      else if H5Tget_class t = H5T_INTEGER \<or> H5Tget_class t = H5T_FLOAT then
        (if H5Tequal t H5T_NATIVE_SCHAR < 0 then
           ([H5T_NATIVE_SCHAR], NC_EHDFERR, xtype)
         else if H5Tequal t H5T_NATIVE_SCHAR \<noteq> 0 then
           ([H5T_NATIVE_SCHAR], NC_NOERR, NC_BYTE)
         else if H5Tequal t H5T_NATIVE_SHORT < 0 then
           ([H5T_NATIVE_SCHAR, H5T_NATIVE_SHORT], NC_EHDFERR, xtype)
         else if H5Tequal t H5T_NATIVE_SHORT \<noteq> 0 then
           ([H5T_NATIVE_SCHAR, H5T_NATIVE_SHORT], NC_NOERR, NC_SHORT)
         else if H5Tequal t H5T_NATIVE_INT < 0 then
           ([H5T_NATIVE_SCHAR, H5T_NATIVE_SHORT, H5T_NATIVE_INT], NC_EHDFERR, xtype)
         else if H5Tequal t H5T_NATIVE_INT \<noteq> 0 then
           ([H5T_NATIVE_SCHAR, H5T_NATIVE_SHORT, H5T_NATIVE_INT], NC_NOERR, NC_INT)
         else if H5Tequal t H5T_NATIVE_FLOAT < 0 then
           ([H5T_NATIVE_SCHAR, H5T_NATIVE_SHORT, H5T_NATIVE_INT, H5T_NATIVE_FLOAT],
            NC_EHDFERR, xtype)
         else if H5Tequal t H5T_NATIVE_FLOAT \<noteq> 0 then
           ([H5T_NATIVE_SCHAR, H5T_NATIVE_SHORT, H5T_NATIVE_INT, H5T_NATIVE_FLOAT],
            NC_NOERR, NC_FLOAT)
         else if H5Tequal t H5T_NATIVE_DOUBLE < 0 then
           ([H5T_NATIVE_SCHAR, H5T_NATIVE_SHORT, H5T_NATIVE_INT, H5T_NATIVE_FLOAT,
             H5T_NATIVE_DOUBLE], NC_EHDFERR, xtype)
         else if H5Tequal t H5T_NATIVE_DOUBLE \<noteq> 0 then
           ([H5T_NATIVE_SCHAR, H5T_NATIVE_SHORT, H5T_NATIVE_INT, H5T_NATIVE_FLOAT,
             H5T_NATIVE_DOUBLE], NC_NOERR, NC_DOUBLE)
         else if H5Tequal t H5T_NATIVE_UCHAR < 0 then
           ([H5T_NATIVE_SCHAR, H5T_NATIVE_SHORT, H5T_NATIVE_INT, H5T_NATIVE_FLOAT,
             H5T_NATIVE_DOUBLE, H5T_NATIVE_UCHAR], NC_EHDFERR, xtype)
         else if H5Tequal t H5T_NATIVE_UCHAR \<noteq> 0 then
           ([H5T_NATIVE_SCHAR, H5T_NATIVE_SHORT, H5T_NATIVE_INT, H5T_NATIVE_FLOAT,
             H5T_NATIVE_DOUBLE, H5T_NATIVE_UCHAR], NC_NOERR, NC_UBYTE)
         else if H5Tequal t H5T_NATIVE_USHORT < 0 then
           ([H5T_NATIVE_SCHAR, H5T_NATIVE_SHORT, H5T_NATIVE_INT, H5T_NATIVE_FLOAT,
             H5T_NATIVE_DOUBLE, H5T_NATIVE_UCHAR, H5T_NATIVE_USHORT], NC_EHDFERR, xtype)
         else if H5Tequal t H5T_NATIVE_USHORT \<noteq> 0 then
           ([H5T_NATIVE_SCHAR, H5T_NATIVE_SHORT, H5T_NATIVE_INT, H5T_NATIVE_FLOAT,
             H5T_NATIVE_DOUBLE, H5T_NATIVE_UCHAR, H5T_NATIVE_USHORT], NC_NOERR, NC_USHORT)
         else if H5Tequal t H5T_NATIVE_UINT < 0 then
           ([H5T_NATIVE_SCHAR, H5T_NATIVE_SHORT, H5T_NATIVE_INT, H5T_NATIVE_FLOAT,
             H5T_NATIVE_DOUBLE, H5T_NATIVE_UCHAR, H5T_NATIVE_USHORT, H5T_NATIVE_UINT],
            NC_EHDFERR, xtype)
         else if H5Tequal t H5T_NATIVE_UINT \<noteq> 0 then
           ([H5T_NATIVE_SCHAR, H5T_NATIVE_SHORT, H5T_NATIVE_INT, H5T_NATIVE_FLOAT,
             H5T_NATIVE_DOUBLE, H5T_NATIVE_UCHAR, H5T_NATIVE_USHORT, H5T_NATIVE_UINT],
            NC_NOERR, NC_UINT)
         else if H5Tequal t H5T_NATIVE_LLONG < 0 then
           ([H5T_NATIVE_SCHAR, H5T_NATIVE_SHORT, H5T_NATIVE_INT, H5T_NATIVE_FLOAT,
             H5T_NATIVE_DOUBLE, H5T_NATIVE_UCHAR, H5T_NATIVE_USHORT, H5T_NATIVE_UINT,
             H5T_NATIVE_LLONG], NC_EHDFERR, xtype)
         else if H5Tequal t H5T_NATIVE_LLONG \<noteq> 0 then
           ([H5T_NATIVE_SCHAR, H5T_NATIVE_SHORT, H5T_NATIVE_INT, H5T_NATIVE_FLOAT,
             H5T_NATIVE_DOUBLE, H5T_NATIVE_UCHAR, H5T_NATIVE_USHORT, H5T_NATIVE_UINT,
             H5T_NATIVE_LLONG], NC_NOERR, NC_INT64)
         else if H5Tequal t H5T_NATIVE_ULLONG < 0 then
           ([H5T_NATIVE_SCHAR, H5T_NATIVE_SHORT, H5T_NATIVE_INT, H5T_NATIVE_FLOAT,
             H5T_NATIVE_DOUBLE, H5T_NATIVE_UCHAR, H5T_NATIVE_USHORT, H5T_NATIVE_UINT,
             H5T_NATIVE_LLONG, H5T_NATIVE_ULLONG], NC_EHDFERR, xtype)
         else if H5Tequal t H5T_NATIVE_ULLONG \<noteq> 0 then
           ([H5T_NATIVE_SCHAR, H5T_NATIVE_SHORT, H5T_NATIVE_INT, H5T_NATIVE_FLOAT,
             H5T_NATIVE_DOUBLE, H5T_NATIVE_UCHAR, H5T_NATIVE_USHORT, H5T_NATIVE_UINT,
             H5T_NATIVE_LLONG, H5T_NATIVE_ULLONG], NC_NOERR, NC_UINT64)
         else
           get_netcdf_type_tail nc4_rec_find_hdf_type t
             [H5T_NATIVE_SCHAR, H5T_NATIVE_SHORT, H5T_NATIVE_INT, H5T_NATIVE_FLOAT,
              H5T_NATIVE_DOUBLE, H5T_NATIVE_UCHAR, H5T_NATIVE_USHORT, H5T_NATIVE_UINT,
              H5T_NATIVE_LLONG, H5T_NATIVE_ULLONG]
             (H5Tequal t H5T_NATIVE_ULLONG))
      else get_netcdf_type_tail nc4_rec_find_hdf_type t [] 0)"

text \<open>
  A first-match search through a list of native constants, generic in the list: each
  constant is handed to \<^verbatim>\<open>H5Tequal\<close> in turn; a negative answer stops with the engine
  error, a positive one with the identifier belonging to the constant; when the list is
  exhausted the user-defined types are searched. It states a priority order
  independently of the unrolled comparisons above.
\<close>

fun nc_type_of :: "native_type \<Rightarrow> int" where
  "nc_type_of H5T_NATIVE_SCHAR = NC_BYTE"
| "nc_type_of H5T_NATIVE_SHORT = NC_SHORT"
| "nc_type_of H5T_NATIVE_INT = NC_INT"
| "nc_type_of H5T_NATIVE_FLOAT = NC_FLOAT"
| "nc_type_of H5T_NATIVE_DOUBLE = NC_DOUBLE"
| "nc_type_of H5T_NATIVE_UCHAR = NC_UBYTE"
| "nc_type_of H5T_NATIVE_USHORT = NC_USHORT"
| "nc_type_of H5T_NATIVE_UINT = NC_UINT"
| "nc_type_of H5T_NATIVE_LLONG = NC_INT64"
| "nc_type_of H5T_NATIVE_ULLONG = NC_UINT64"

fun first_match ::
  "(hid_type \<Rightarrow> int option) \<Rightarrow> hid_type \<Rightarrow> int \<Rightarrow> native_type list \<Rightarrow> native_type list
     \<Rightarrow> native_type list \<times> int \<times> int" where
  "first_match find_type t xtype tested [] = get_netcdf_type_tail find_type t tested 0"
| "first_match find_type t xtype tested (c # cs) =
     (if H5Tequal t c < 0 then (tested @ [c], NC_EHDFERR, xtype)
      else if H5Tequal t c \<noteq> 0 then (tested @ [c], NC_NOERR, nc_type_of c)
      else first_match find_type t xtype (tested @ [c]) cs)"

text \<open>The order in which the source makes the comparisons.\<close>

definition source_order :: "native_type list" where
  "source_order =
     [H5T_NATIVE_SCHAR, H5T_NATIVE_SHORT, H5T_NATIVE_INT, H5T_NATIVE_FLOAT,
      H5T_NATIVE_DOUBLE, H5T_NATIVE_UCHAR, H5T_NATIVE_USHORT, H5T_NATIVE_UINT,
      H5T_NATIVE_LLONG, H5T_NATIVE_ULLONG]"

text \<open>
  The order as the specification words it: the 8, 16, 32 and 64-bit signed integers, then
  float, then double, then the unsigned variants, then 64-bit signed and unsigned.
\<close>

definition specified_order :: "native_type list" where
  "specified_order =
     [H5T_NATIVE_SCHAR, H5T_NATIVE_SHORT, H5T_NATIVE_INT, H5T_NATIVE_LLONG,
      H5T_NATIVE_FLOAT, H5T_NATIVE_DOUBLE,
      H5T_NATIVE_UCHAR, H5T_NATIVE_USHORT, H5T_NATIVE_UINT, H5T_NATIVE_ULLONG,
      H5T_NATIVE_LLONG, H5T_NATIVE_ULLONG]"

text \<open>Two concrete descriptors and a file without user-defined types.\<close>

fun equal_only :: "native_type \<Rightarrow> native_type \<Rightarrow> int" where
  "equal_only c d = (if c = d then 1 else 0)"

fun equal_either :: "native_type \<Rightarrow> native_type \<Rightarrow> native_type \<Rightarrow> int" where
  "equal_either c c' d = (if d = c \<or> d = c' then 1 else 0)"

fun no_user_types :: "hid_type \<Rightarrow> int option" where
  "no_user_types t = None"

definition llong_type :: hid_type where
  "llong_type =
     \<lparr>H5Tget_class = H5T_INTEGER, H5Tis_variable_str = 0,
      H5Tequal = equal_only H5T_NATIVE_LLONG, H5Tget_size = 8\<rparr>"

definition aliased_type :: hid_type where
  "aliased_type =
     \<lparr>H5Tget_class = H5T_INTEGER, H5Tis_variable_str = 0,
      H5Tequal = equal_either H5T_NATIVE_UINT H5T_NATIVE_LLONG, H5Tget_size = 8\<rparr>"

section \<open>Reading an attribute\<close>

text \<open>
  A dataspace of the storage engine is null (no element), scalar (one element, rank 0)
  or simple (rank at least one: the engine turns a simple extent of rank 0 into a
  scalar one), with the current extent of each dimension. The queries answer as the
  engine does on a valid handle; they return the C types of the calls, so that the
  source's tests for a negative answer stay in the model.
\<close>

datatype H5S_class_t = H5S_NO_CLASS | H5S_SCALAR | H5S_SIMPLE | H5S_NULL

datatype hid_space = Null_space | Scalar_space | Simple_space nat "nat list"

fun H5Sget_simple_extent_ndims :: "hid_space \<Rightarrow> int" where
  "H5Sget_simple_extent_ndims Null_space = 0"
| "H5Sget_simple_extent_ndims Scalar_space = 0"
| "H5Sget_simple_extent_ndims (Simple_space d ds) = 1 + int (length ds)"

fun H5Sget_simple_extent_npoints :: "hid_space \<Rightarrow> int" where
  "H5Sget_simple_extent_npoints Null_space = 0"
| "H5Sget_simple_extent_npoints Scalar_space = 1"
| "H5Sget_simple_extent_npoints (Simple_space d ds) = int (prod_list (d # ds))"

fun H5Sget_simple_extent_type :: "hid_space \<Rightarrow> H5S_class_t" where
  "H5Sget_simple_extent_type Null_space = H5S_NULL"
| "H5Sget_simple_extent_type Scalar_space = H5S_SCALAR"
| "H5Sget_simple_extent_type (Simple_space d ds) = H5S_SIMPLE"

text \<open>
  \<^verbatim>\<open>H5Sget_simple_extent_dims(spaceid, dims, NULL)\<close> with the one-element buffer of
  \<^verbatim>\<open>read_hdf5_att\<close>: the second argument is \<^verbatim>\<open>dims[0]\<close> before the call, the result is the
  return value (the rank) and \<^verbatim>\<open>dims[0]\<close> after it. The source calls it for rank at most
  one only.
\<close>

fun H5Sget_simple_extent_dims :: "hid_space \<Rightarrow> nat \<Rightarrow> int \<times> nat" where
  "H5Sget_simple_extent_dims Null_space dims0 = (0, dims0)"
| "H5Sget_simple_extent_dims Scalar_space dims0 = (0, dims0)"
| "H5Sget_simple_extent_dims (Simple_space d ds) dims0 = (1 + int (length ds), d)"

text \<open>
  What the engine answers about one attribute of an object: its name, the identifier
  \<^verbatim>\<open>H5Aopen\<close> (or \<^verbatim>\<open>H5Aopen_idx\<close>) returns for it, the return value of \<^verbatim>\<open>H5Aget_name\<close>,
  its type as stored in the file, the native type of that type, its dataspace
  (\<open>None\<close>: the call returns a negative identifier), and the return values of
  \<^verbatim>\<open>H5Aread\<close> and of the calls that release the handles.
\<close>

record hid_att =
  H5A_name :: string
  H5Aopen :: int
  H5Aget_name :: int
  H5Aget_type :: "hid_type option"
  H5Tget_native_type :: "hid_type option"
  H5Aget_space :: "hid_space option"
  H5Aread :: int
  H5Tclose :: int
  H5Sclose :: int
  H5Aclose :: int

text \<open>
  \<^verbatim>\<open>NC_ATT_INFO_T\<close>, with the fields the functions below write. Its declaration is in
  another file; \<open>att_len\<close> holds the value of \<^verbatim>\<open>dims[0]\<close> that \<^verbatim>\<open>read_hdf5_att\<close> assigns
  to \<^verbatim>\<open>att->len\<close>. The values of the attribute are not modelled, and memory allocation
  is taken to succeed.
\<close>

record NC_ATT_INFO =
  att_name :: string
  att_nc_typeid :: int
  att_len :: nat
  att_created :: bool

text \<open>
  The \<^verbatim>\<open>exit\<close> label of \<^verbatim>\<open>read_hdf5_att\<close>: the file type is closed, the dataspace too
  when it was opened, and a failure of either replaces the return code.
\<close>

definition read_hdf5_att_exit :: "hid_att \<Rightarrow> bool \<Rightarrow> int \<Rightarrow> int" where
  "read_hdf5_att_exit a space_opened retval =
     (let retval1 = (if H5Tclose a < 0 then NC_EHDFERR else retval)
      in if space_opened \<and> H5Sclose a < 0 then NC_EHDFERR else retval1)"

text \<open>
  The block of \<^verbatim>\<open>read_hdf5_att\<close> under the comment \<^verbatim>\<open>Get len\<close>, after the rank and the
  number of points were read: \<open>Inl\<close> is the error code of a \<^verbatim>\<open>BAIL\<close>, \<open>Inr\<close> the value of
  \<^verbatim>\<open>dims[0]\<close> and of \<^verbatim>\<open>att->nc_typeid\<close> at the end of the block.
\<close>

definition read_hdf5_att_len :: "hid_type \<Rightarrow> hid_space \<Rightarrow> int \<Rightarrow> int + nat \<times> int" where
  "read_hdf5_att_len file_typeid spaceid nc_typeid =
     (let att_ndims = H5Sget_simple_extent_ndims spaceid;
          att_npoints = H5Sget_simple_extent_npoints spaceid
      in
        if att_ndims = 0 \<and> att_npoints = 0 then Inr (0, nc_typeid)
        else if nc_typeid = NC_STRING then Inr (nat att_npoints, nc_typeid)
        else if nc_typeid = NC_CHAR then
          (if att_ndims = 0 then
             (if H5Tget_size file_typeid = 0 then Inl NC_EATTMETA
              else Inr (H5Tget_size file_typeid, nc_typeid))
           else Inr (nat att_npoints, NC_STRING))
        else
          (if att_ndims > 1 then Inl NC_EATTMETA
           else if H5Sget_simple_extent_type spaceid = H5S_NO_CLASS then Inl NC_EATTMETA
           else if H5Sget_simple_extent_type spaceid = H5S_NULL then Inl NC_EATTMETA
           else if H5Sget_simple_extent_type spaceid = H5S_SCALAR then Inr (1, nc_typeid)
           else
             (case H5Sget_simple_extent_dims spaceid 0 of
                (r, dims0) \<Rightarrow> if r < 0 then Inl NC_EATTMETA else Inr (dims0, nc_typeid))))"

text \<open>
  \<^verbatim>\<open>read_hdf5_att\<close>. \<^verbatim>\<open>nc4_get_typelen_mem\<close> is defined in another file; its return code
  for a type identifier is a parameter.
\<close>

definition read_hdf5_att ::
  "(hid_type \<Rightarrow> int option) \<Rightarrow> (int \<Rightarrow> int) \<Rightarrow> hid_att \<Rightarrow> NC_ATT_INFO \<Rightarrow> int \<times> NC_ATT_INFO" where
  "read_hdf5_att nc4_rec_find_hdf_type nc4_get_typelen_mem a att =
     (case H5Aget_type a of
        None \<Rightarrow> (NC_EATTMETA, att)
      | Some file_typeid \<Rightarrow>
        (case H5Tget_native_type a of
           None \<Rightarrow> (read_hdf5_att_exit a False NC_EHDFERR, att)
         | Some native_hdf_typeid \<Rightarrow>
           if H5Tget_class native_hdf_typeid = H5T_NO_CLASS then
             (read_hdf5_att_exit a False NC_EATTMETA, att)
           else if H5Tget_class native_hdf_typeid = H5T_STRING
                   \<and> H5Tis_variable_str native_hdf_typeid = 0
                   \<and> H5Tget_size native_hdf_typeid = 0 then
             (read_hdf5_att_exit a False NC_EATTMETA, att)
           else
             (case get_netcdf_type nc4_rec_find_hdf_type native_hdf_typeid (att_nc_typeid att) of
                (tested, retval, xtype) \<Rightarrow>
                  if retval \<noteq> 0 then
                    (read_hdf5_att_exit a False retval, att\<lparr>att_nc_typeid := xtype\<rparr>)
                  else
                    (case H5Aget_space a of
                       None \<Rightarrow> (read_hdf5_att_exit a False NC_EATTMETA, att\<lparr>att_nc_typeid := xtype\<rparr>)
                     | Some spaceid \<Rightarrow>
                       if H5Sget_simple_extent_ndims spaceid < 0 then
                         (read_hdf5_att_exit a True NC_EATTMETA, att\<lparr>att_nc_typeid := xtype\<rparr>)
                       else if H5Sget_simple_extent_npoints spaceid < 0 then
                         (read_hdf5_att_exit a True NC_EATTMETA, att\<lparr>att_nc_typeid := xtype\<rparr>)
                       else
                         (case read_hdf5_att_len file_typeid spaceid xtype of
                            Inl e \<Rightarrow> (read_hdf5_att_exit a True e, att\<lparr>att_nc_typeid := xtype\<rparr>)
                          | Inr (dims0, nc_typeid) \<Rightarrow>
                              let att' = att\<lparr>att_nc_typeid := nc_typeid, att_len := dims0\<rparr> in
                              if dims0 \<noteq> 0 \<and> nc4_get_typelen_mem nc_typeid \<noteq> 0 then
                                (nc4_get_typelen_mem nc_typeid, att')
                              else if dims0 \<noteq> 0 \<and> H5Aread a < 0 then
                                (read_hdf5_att_exit a True NC_EATTMETA, att')
                              else if H5Tclose a < 0 then
                                (read_hdf5_att_exit a True NC_EHDFERR, att')
                              else if H5Sclose a < 0 then (NC_EHDFERR, att')
                              else (NC_NOERR, att'))))))"


section \<open>Reading the attributes of a variable and of a group\<close>

text \<open>
  Modelled from the spec: \<^verbatim>\<open>nc4_att_list_add\<close> and \<^verbatim>\<open>nc4_att_list_del\<close> are defined in
  another file. A collection of attributes is ordered by creation: adding appends a
  new record with the given name, and deleting the attribute that was just added
  removes the last one. Both return \<^verbatim>\<open>NC_NOERR\<close>.
\<close>

definition nc4_att_list_add :: "NC_ATT_INFO list \<Rightarrow> string \<Rightarrow> NC_ATT_INFO list" where
  "nc4_att_list_add atts nm =
     atts @ [\<lparr>att_name = nm, att_nc_typeid = 0, att_len = 0, att_created = False\<rparr>]"

definition nc4_att_list_del :: "NC_ATT_INFO list \<Rightarrow> NC_ATT_INFO list" where
  "nc4_att_list_del atts = butlast atts"

text \<open>
  The engine's iteration over the attributes of an object (\<^verbatim>\<open>H5Aiterate2\<close>) and over the
  links of a group (\<^verbatim>\<open>H5Literate\<close>): the callback is applied to each item in order, and
  the first non-zero value it returns stops the iteration and is the result.
\<close>

fun H5iterate :: "('s \<Rightarrow> 'a \<Rightarrow> int \<times> 's) \<Rightarrow> 'a list \<Rightarrow> 's \<Rightarrow> int \<times> 's" where
  "H5iterate op [] s = (0, s)"
| "H5iterate op (x # xs) s =
     (case op s x of (r, s') \<Rightarrow> if r \<noteq> 0 then (r, s') else H5iterate op xs s')"

text \<open>
  \<^verbatim>\<open>att_read_var_callbk\<close>, on the attribute list of the variable. The attribute record
  the callback works on is the last of the list, the one just added.
\<close>

definition att_read_var_callbk ::
  "(hid_type \<Rightarrow> int option) \<Rightarrow> (int \<Rightarrow> int) \<Rightarrow> NC_ATT_INFO list \<Rightarrow> hid_att
     \<Rightarrow> int \<times> NC_ATT_INFO list" where
  "att_read_var_callbk nc4_rec_find_hdf_type nc4_get_typelen_mem atts a =
     (if NC_findreserved (H5A_name a) \<noteq> None then (NC_NOERR, atts)
      else
        let atts1 = nc4_att_list_add atts (H5A_name a) in
        if H5Aopen a < 0 then (NC_EATTMETA, atts1)
        else
          (case read_hdf5_att nc4_rec_find_hdf_type nc4_get_typelen_mem a (last atts1) of
             (retval, att) \<Rightarrow>
               if retval \<noteq> 0 then
                 (case (if retval = NC_EBADTYPID then (NC_NOERR, nc4_att_list_del atts1)
                        else (retval, butlast atts1 @ [att])) of
                    (retval', atts2) \<Rightarrow>
                      (if H5Aopen a > 0 \<and> H5Aclose a < 0 then NC_EHDFERR else retval', atts2))
               else (NC_NOERR, butlast atts1 @ [att\<lparr>att_created := True\<rparr>])))"

text \<open>
  \<^verbatim>\<open>NC_VAR_INFO_T\<close>, \<^verbatim>\<open>NC_DIM_INFO_T\<close>, \<^verbatim>\<open>NC_GRP_INFO_T\<close> and \<^verbatim>\<open>NC_FILE_INFO_T\<close>, with
  the fields the functions below read or write. Their declarations are in another file.
  The variables of a group are an index whose slots may be \<^verbatim>\<open>NULL\<close> (\<open>None\<close>); a group
  without parent is the root group; \<^verbatim>\<open>flags\<close>, \<^verbatim>\<open>cmode\<close> and \<^verbatim>\<open>next_dimid\<close> are of type
  \<^verbatim>\<open>int\<close>, identifiers of the engine too (zero: not set). The groups of a file are the
  list \<^verbatim>\<open>allgroups\<close>, indexed by group identifier, the root group first; the parent of a
  group is given by its identifier. A function that works on one group takes and returns
  that group's record beside the file record.
\<close>

record NC_VAR_INFO =
  var_name :: string
  var_att :: "NC_ATT_INFO list"
  var_atts_not_read :: bool
  var_created :: bool
  var_dimscale :: bool
  var_written_to :: bool

record NC_DIM_INFO =
  dim_name :: string
  dim_id :: "32 word"
  dim_len :: "64 word"
  dim_unlimited :: bool
  dim_too_long :: bool
  dim_hdf_dimscaleid :: int

record NC_GRP_INFO =
  grp_name :: string
  grp_parent :: "nat option"
  grp_vars :: "NC_VAR_INFO option list"
  grp_dim :: "NC_DIM_INFO list"
  grp_att :: "NC_ATT_INFO list"
  grp_atts_not_read :: bool

record NC_FILE_INFO =
  h5_flags :: "32 word"
  h5_cmode :: "32 word"
  h5_redef :: bool
  h5_no_write :: bool
  h5_next_dimid :: "32 word"
  h5_allgroups :: "NC_GRP_INFO list"

definition NC_INDEF :: "32 word" where
  "NC_INDEF = 0x08"

definition NC_NOWRITE :: "32 word" where
  "NC_NOWRITE = 0x0000"

definition NC_CLASSIC_MODEL :: "32 word" where
  "NC_CLASSIC_MODEL = 0x0100"

definition NC3_STRICT_ATT_NAME :: string where
  "NC3_STRICT_ATT_NAME = ''_nc3_strict''"

text \<open>
  \<^verbatim>\<open>nc4_read_var_atts\<close>: the attributes of the dataset are iterated in creation order.
\<close>

definition nc4_read_var_atts ::
  "(hid_type \<Rightarrow> int option) \<Rightarrow> (int \<Rightarrow> int) \<Rightarrow> NC_VAR_INFO \<Rightarrow> hid_att list
     \<Rightarrow> int \<times> NC_VAR_INFO" where
  "nc4_read_var_atts nc4_rec_find_hdf_type nc4_get_typelen_mem var attrs =
     (case H5iterate (att_read_var_callbk nc4_rec_find_hdf_type nc4_get_typelen_mem)
             attrs (var_att var) of
        (r, atts) \<Rightarrow>
          if r < 0 then (NC_EATTMETA, var\<lparr>var_att := atts\<rparr>)
          else (NC_NOERR, var\<lparr>var_att := atts, var_atts_not_read := False\<rparr>))"

text \<open>
  The loop of \<^verbatim>\<open>nc4_read_grp_atts\<close> over the attributes of the group, on the file and
  group records. The result is the return code, whether the function left through a
  \<^verbatim>\<open>BAIL\<close>, and the records. \<^verbatim>\<open>nc4_find_type\<close> is defined in another file; its return
  code for a type identifier is a parameter.
\<close>

fun nc4_read_grp_atts_loop ::
  "(hid_type \<Rightarrow> int option) \<Rightarrow> (int \<Rightarrow> int) \<Rightarrow> (int \<Rightarrow> int) \<Rightarrow> hid_att list
     \<Rightarrow> NC_FILE_INFO \<Rightarrow> NC_GRP_INFO \<Rightarrow> int \<times> bool \<times> NC_FILE_INFO \<times> NC_GRP_INFO" where
  "nc4_read_grp_atts_loop find_hdf_type typelen nc4_find_type [] h5 grp = (NC_NOERR, False, h5, grp)"
| "nc4_read_grp_atts_loop find_hdf_type typelen nc4_find_type (a # as) h5 grp =
     (if H5Aopen a < 0 then (NC_EATTMETA, True, h5, grp)
      else if H5Aget_name a < 0 then
        (if H5Aopen a > 0 \<and> H5Aclose a < 0 then NC_EHDFERR else NC_EATTMETA, True, h5, grp)
      else
        let hidden =
              (grp_parent grp = None \<and>
               (case NC_findreserved (H5A_name a) of
                  None \<Rightarrow> False
                | Some ra \<Rightarrow> NAMEONLYFLAG \<in> flags ra))
        in
          if strcmp (H5A_name a) NC3_STRICT_ATT_NAME = 0 then
            nc4_read_grp_atts_loop find_hdf_type typelen nc4_find_type as
              (h5\<lparr>h5_cmode := h5_cmode h5 OR NC_CLASSIC_MODEL\<rparr>) grp
          else if \<not> hidden then
            (let atts1 = nc4_att_list_add (grp_att grp) (H5A_name a) in
             case read_hdf5_att find_hdf_type typelen a (last atts1) of
               (retval, att) \<Rightarrow>
                 if retval = NC_EBADTYPID then
                   nc4_read_grp_atts_loop find_hdf_type typelen nc4_find_type as h5
                     (grp\<lparr>grp_att := nc4_att_list_del atts1\<rparr>)
                 else if retval \<noteq> 0 then
                   (if H5Aopen a > 0 \<and> H5Aclose a < 0 then NC_EHDFERR else retval, True, h5,
                    grp\<lparr>grp_att := butlast atts1 @ [att]\<rparr>)
                 else
                   let grp1 = grp\<lparr>grp_att := butlast atts1 @ [att\<lparr>att_created := True\<rparr>]\<rparr> in
                   if nc4_find_type (att_nc_typeid att) \<noteq> 0 then
                     (if H5Aopen a > 0 \<and> H5Aclose a < 0 then NC_EHDFERR
                      else nc4_find_type (att_nc_typeid att), True, h5, grp1)
                   else nc4_read_grp_atts_loop find_hdf_type typelen nc4_find_type as h5 grp1)
          else nc4_read_grp_atts_loop find_hdf_type typelen nc4_find_type as h5 grp)"

text \<open>\<^verbatim>\<open>nc4_read_grp_atts\<close>: after a complete loop the group's attributes count as read.\<close>

definition nc4_read_grp_atts ::
  "(hid_type \<Rightarrow> int option) \<Rightarrow> (int \<Rightarrow> int) \<Rightarrow> (int \<Rightarrow> int) \<Rightarrow> hid_att list
     \<Rightarrow> NC_FILE_INFO \<Rightarrow> NC_GRP_INFO \<Rightarrow> int \<times> NC_FILE_INFO \<times> NC_GRP_INFO" where
  "nc4_read_grp_atts find_hdf_type typelen nc4_find_type attrs h5 grp =
     (case nc4_read_grp_atts_loop find_hdf_type typelen nc4_find_type attrs h5 grp of
        (retval, bailed, h5', grp') \<Rightarrow>
          if bailed then (retval, h5', grp')
          else (retval, h5', grp'\<lparr>grp_atts_not_read := False\<rparr>))"

text \<open>Concrete attributes: a scalar of native \<^verbatim>\<open>int\<close> type under a given name.\<close>

definition int_type :: hid_type where
  "int_type =
     \<lparr>H5Tget_class = H5T_INTEGER, H5Tis_variable_str = 0,
      H5Tequal = equal_only H5T_NATIVE_INT, H5Tget_size = 4\<rparr>"

definition int_scalar_att :: "string \<Rightarrow> hid_att" where
  "int_scalar_att nm =
     \<lparr>H5A_name = nm, H5Aopen = 1, H5Aget_name = 0, H5Aget_type = Some int_type,
      H5Tget_native_type = Some int_type, H5Aget_space = Some Scalar_space,
      H5Aread = 0, H5Tclose = 0, H5Sclose = 0, H5Aclose = 0\<rparr>"

fun all_types_known :: "int \<Rightarrow> int" where
  "all_types_known t = NC_NOERR"

definition root_grp :: NC_GRP_INFO where
  "root_grp =
     \<lparr>grp_name = ''/'', grp_parent = None, grp_vars = [], grp_dim = [], grp_att = [],
      grp_atts_not_read = True\<rparr>"

definition open_file :: NC_FILE_INFO where
  "open_file =
     \<lparr>h5_flags = 0, h5_cmode = 0, h5_redef = False, h5_no_write = False, h5_next_dimid = 0,
      h5_allgroups = [root_grp]\<rparr>"

text \<open>A fresh attribute record, and an attribute holding an array of native \<^verbatim>\<open>int\<close>.\<close>

definition new_att :: "string \<Rightarrow> NC_ATT_INFO" where
  "new_att nm = \<lparr>att_name = nm, att_nc_typeid = 0, att_len = 0, att_created = False\<rparr>"



text \<open>
  The names that reading the attributes of a group lets through: never the strict
  marker, and in the root group none of the three names flagged as name-only.
\<close>

definition group_visible :: "NC_GRP_INFO \<Rightarrow> string \<Rightarrow> bool" where
  "group_visible grp nm \<longleftrightarrow>
     nm \<noteq> ''_nc3_strict'' \<and>
     (grp_parent grp = None \<longrightarrow>
        nm \<noteq> ''_IsNetcdf4'' \<and> nm \<noteq> ''_NCProperties'' \<and> nm \<noteq> ''_SuperblockVersion'')"

text \<open>A variable without attributes yet, and a group below the root group.\<close>

definition fresh_var :: "string \<Rightarrow> NC_VAR_INFO" where
  "fresh_var nm =
     \<lparr>var_name = nm, var_att = [], var_atts_not_read = True, var_created = True,
      var_dimscale = False, var_written_to = False\<rparr>"

definition child_grp :: NC_GRP_INFO where
  "child_grp = root_grp\<lparr>grp_name := ''g'', grp_parent := Some 0\<rparr>"


section \<open>The chunk cache defaults\<close>

text \<open>
  A C \<^verbatim>\<open>float\<close> is a finite value, an infinity or a NaN. The function below only compares
  its argument with the constants 0 and 1, so a finite value is kept as the real number
  it denotes. \<open>float_less\<close> and \<open>float_le\<close> are the comparisons \<^verbatim>\<open><\<close> and \<^verbatim>\<open><=\<close> of C:
  every comparison with a NaN is false.
\<close>

datatype c_float = Finite real | PosInf | NegInf | NaN

fun float_less :: "c_float \<Rightarrow> c_float \<Rightarrow> bool" where
  "float_less (Finite a) (Finite b) = (a < b)"
| "float_less (Finite a) PosInf = True"
| "float_less NegInf (Finite b) = True"
| "float_less NegInf PosInf = True"
| "float_less a b = False"


text \<open>The three process-wide defaults (\<^verbatim>\<open>size_t\<close> is taken as 64 bits wide).\<close>

record chunk_cache =
  nc4_chunk_cache_size :: "64 word"
  nc4_chunk_cache_nelems :: "64 word"
  nc4_chunk_cache_preemption :: c_float

definition nc_set_chunk_cache ::
  "64 word \<Rightarrow> 64 word \<Rightarrow> c_float \<Rightarrow> chunk_cache \<Rightarrow> int \<times> chunk_cache" where
  "nc_set_chunk_cache size' nelems preemption globals =
     (if float_less preemption (Finite 0) \<or> float_less (Finite 1) preemption then
        (NC_EINVAL, globals)
      else
        (NC_NOERR,
         globals\<lparr>nc4_chunk_cache_size := size', nc4_chunk_cache_nelems := nelems,
           nc4_chunk_cache_preemption := preemption\<rparr>))"


section \<open>Leaving define mode\<close>

text \<open>
  \<^verbatim>\<open>sync_netcdf4_file\<close> calls three functions of another file that write the metadata,
  and the engine's flush. Their return codes are parameters, as is the value of the
  local \<^verbatim>\<open>retval\<close> before anything is assigned to it, which the function returns when
  the writing block is skipped. What the writing functions change in the metadata lies
  outside the fields modelled here.
\<close>

record sync_env =
  nc4_rec_write_groups_types :: int
  nc4_rec_detect_need_to_preserve_dimids :: int
  nc4_rec_write_metadata :: int
  H5Fflush :: int
  uninitialised_retval :: int

definition sync_netcdf4_file :: "sync_env \<Rightarrow> NC_FILE_INFO \<Rightarrow> int \<times> NC_FILE_INFO" where
  "sync_netcdf4_file env h5 =
     (if h5_flags h5 AND NC_INDEF \<noteq> 0 \<and> h5_cmode h5 AND NC_CLASSIC_MODEL \<noteq> 0 then
        (NC_EINDEFINE, h5)
      else
        let h5' = (if h5_flags h5 AND NC_INDEF \<noteq> 0
                   then h5\<lparr>h5_flags := h5_flags h5 XOR NC_INDEF, h5_redef := False\<rparr>
                   else h5)
        in
          if h5_cmode h5' AND NC_NOWRITE = 0 then
            (if nc4_rec_write_groups_types env \<noteq> 0 then (nc4_rec_write_groups_types env, h5')
             else if nc4_rec_detect_need_to_preserve_dimids env \<noteq> 0 then
               (nc4_rec_detect_need_to_preserve_dimids env, h5')
             else if nc4_rec_write_metadata env \<noteq> 0 then (nc4_rec_write_metadata env, h5')
             else if H5Fflush env < 0 then (NC_EHDFERR, h5')
             else (nc4_rec_write_metadata env, h5'))
          else if H5Fflush env < 0 then (NC_EHDFERR, h5')
          else (uninitialised_retval env, h5'))"

definition nc4_enddef_netcdf4_file :: "sync_env \<Rightarrow> NC_FILE_INFO \<Rightarrow> int \<times> NC_FILE_INFO" where
  "nc4_enddef_netcdf4_file env h5 =
     (if h5_flags h5 AND NC_INDEF = 0 then (NC_ENOTINDEFINE, h5)
      else sync_netcdf4_file env
             (h5\<lparr>h5_flags := h5_flags h5 XOR NC_INDEF, h5_redef := False\<rparr>))"

text \<open>
  The loop of \<^verbatim>\<open>NC4_enddef\<close> over the variables of the group:
  \<^verbatim>\<open>if(var != NULL) continue; var->written_to = NC_TRUE;\<close>. A variable that exists is
  skipped; the assignment is reached with \<^verbatim>\<open>var\<close> equal to \<^verbatim>\<open>NULL\<close> only, where it
  dereferences the null pointer (\<open>None\<close> as result).
\<close>

fun NC4_enddef_mark :: "NC_VAR_INFO option list \<Rightarrow> NC_VAR_INFO option list option" where
  "NC4_enddef_mark [] = Some []"
| "NC4_enddef_mark (Some var # vars) = map_option ((#) (Some var)) (NC4_enddef_mark vars)"
| "NC4_enddef_mark (None # vars) = None"

text \<open>
  The loop of the same purpose at the end of \<^verbatim>\<open>nc4_rec_read_metadata\<close>:
  \<^verbatim>\<open>if(var == NULL) continue; var->written_to = NC_TRUE;\<close>.
\<close>

fun nc4_rec_read_metadata_mark :: "NC_VAR_INFO option list \<Rightarrow> NC_VAR_INFO option list" where
  "nc4_rec_read_metadata_mark [] = []"
| "nc4_rec_read_metadata_mark (None # vars) = None # nc4_rec_read_metadata_mark vars"
| "nc4_rec_read_metadata_mark (Some var # vars) =
     Some (var\<lparr>var_written_to := True\<rparr>) # nc4_rec_read_metadata_mark vars"

text \<open>
  Modelled from the spec: \<^verbatim>\<open>nc4_find_nc_file\<close> and \<^verbatim>\<open>nc4_rec_find_grp\<close> are defined in
  another file. An operation names its file and group by one numeric identifier: the
  upper 16 bits select the open file, the lower 16 bits the group in the file's list of
  groups. The open files are a partial map from the file part of the identifier.
\<close>

definition FILE_ID_MASK :: "32 word" where
  "FILE_ID_MASK = 0xffff0000"

definition GRP_ID_MASK :: "32 word" where
  "GRP_ID_MASK = 0x0000ffff"

definition nc4_find_nc_file ::
  "(32 word \<Rightarrow> NC_FILE_INFO option) \<Rightarrow> 32 word \<Rightarrow> NC_FILE_INFO option" where
  "nc4_find_nc_file files ncid = files (ncid AND FILE_ID_MASK)"

definition nc4_rec_find_grp :: "NC_FILE_INFO \<Rightarrow> 32 word \<Rightarrow> nat option" where
  "nc4_rec_find_grp h5 target_nc_grpid =
     (if unat target_nc_grpid < length (h5_allgroups h5) then Some (unat target_nc_grpid)
      else None)"

text \<open>
  The result of an operation on the open files: it returns a code and leaves the files
  in a state, or it dereferences a null pointer.
\<close>

datatype outcome = Returns int "32 word \<Rightarrow> NC_FILE_INFO option" | Null_dereference

definition NC4_enddef ::
  "sync_env \<Rightarrow> (32 word \<Rightarrow> NC_FILE_INFO option) \<Rightarrow> 32 word \<Rightarrow> outcome" where
  "NC4_enddef env files ncid =
     (case nc4_find_nc_file files ncid of
        None \<Rightarrow> Returns NC_EBADID files
      | Some nc4_info \<Rightarrow>
        (case nc4_rec_find_grp nc4_info (ncid AND GRP_ID_MASK) of
           None \<Rightarrow> Returns NC_EBADGRPID files
         | Some g \<Rightarrow>
           (case NC4_enddef_mark (grp_vars (h5_allgroups nc4_info ! g)) of
              None \<Rightarrow> Null_dereference
            | Some vars \<Rightarrow>
                let grp = (h5_allgroups nc4_info ! g)\<lparr>grp_vars := vars\<rparr>;
                    h5 = nc4_info\<lparr>h5_allgroups := (h5_allgroups nc4_info)[g := grp]\<rparr>
                in case nc4_enddef_netcdf4_file env h5 of
                     (retval, h5') \<Rightarrow> Returns retval (files(ncid AND FILE_ID_MASK := Some h5')))))"

text \<open>
  A file just created, in define mode, with one variable in its root group; the
  identifier of its root group; and a run in which writing and flushing succeed.
\<close>

definition created_file :: NC_FILE_INFO where
  "created_file =
     open_file\<lparr>h5_flags := NC_INDEF,
       h5_allgroups := [root_grp\<lparr>grp_vars := [Some (fresh_var ''v'')]\<rparr>]\<rparr>"

fun one_file :: "NC_FILE_INFO \<Rightarrow> 32 word \<Rightarrow> NC_FILE_INFO option" where
  "one_file h5 k = (if k = 0x10000 then Some h5 else None)"

definition sync_ok :: sync_env where
  "sync_ok =
     \<lparr>nc4_rec_write_groups_types = 0, nc4_rec_detect_need_to_preserve_dimids = 0,
      nc4_rec_write_metadata = 0, H5Fflush = 0, uninitialised_retval = 0\<rparr>"

section \<open>Reading a dimension scale\<close>

text \<open>
  What the engine answers about one dataset of a group, in the order in which
  \<^verbatim>\<open>read_dataset\<close>, \<^verbatim>\<open>read_scale\<close> and \<^verbatim>\<open>read_var\<close> ask: the return values of the calls
  (negative: failure), the rank, the first current and maximal extent, the value of the
  hidden dimension-id attribute that \<^verbatim>\<open>H5Aread\<close> stores in \<^verbatim>\<open>assigned_id\<close>, and the name of
  the scale. Two more fields stand for code of other files: the return code and the
  length that \<^verbatim>\<open>nc4_find_dim_len\<close> gives for the new dimension, and the code of the first
  step that fails in the body of \<^verbatim>\<open>read_var\<close> (zero when none fails).
\<close>

record hid_dataset =
  ds_H5Dget_space :: int
  ds_ndims :: int
  ds_H5DSis_scale :: int
  ds_H5Sget_simple_extent_dims :: int
  ds_dims0 :: "64 word"
  ds_max_dims0 :: "64 word"
  ds_H5Aexists :: int
  ds_H5Aopen_name :: int
  ds_H5Aread :: int
  ds_assigned_id :: "32 word"
  ds_H5Aclose :: int
  ds_H5DSget_scale_name :: int
  ds_scale_name :: string
  ds_nc4_find_dim_len :: "int \<times> 64 word"
  ds_read_var_body :: int
  ds_H5Idec_ref :: int
  ds_H5Pclose :: int

definition SIZEOF_SIZE_T :: nat where
  "SIZEOF_SIZE_T = 8"

definition NC_MAX_UINT :: "64 word" where
  "NC_MAX_UINT = 4294967295"

definition NC_UNLIMITED :: "64 word" where
  "NC_UNLIMITED = 0"

definition H5S_UNLIMITED :: "64 word" where
  "H5S_UNLIMITED = - 1"

definition DIM_WITHOUT_VARIABLE :: string where
  "DIM_WITHOUT_VARIABLE = ''This is a netCDF dimension but not a netCDF variable.''"

text \<open>
  Modelled from the spec: \<^verbatim>\<open>nc4_dim_list_add\<close> and \<^verbatim>\<open>nc4_dim_list_del\<close> are defined in
  another file. A dimension is identified by an integer id allocated increasingly per
  file: the new dimension takes the id assigned to it when that is not negative, and
  the file's next id otherwise, which is then incremented. The dimensions of a group are
  ordered by creation: the new one is appended, and deleting the dimension that was just
  added removes the last one. A dimension of length \<^verbatim>\<open>NC_UNLIMITED\<close> is unlimited. Both
  functions return \<^verbatim>\<open>NC_NOERR\<close>.
\<close>

definition nc4_dim_list_add ::
  "NC_FILE_INFO \<Rightarrow> NC_GRP_INFO \<Rightarrow> string \<Rightarrow> 64 word \<Rightarrow> 32 word \<Rightarrow> NC_FILE_INFO \<times> NC_GRP_INFO" where
  "nc4_dim_list_add h5 grp nm len assignedid =
     (let new_dim =
            \<lparr>dim_name = nm,
             dim_id = (if 0 \<le> sint assignedid then assignedid else h5_next_dimid h5),
             dim_len = len, dim_unlimited = (len = NC_UNLIMITED), dim_too_long = False,
             dim_hdf_dimscaleid = 0\<rparr>
      in ((if 0 \<le> sint assignedid then h5 else h5\<lparr>h5_next_dimid := h5_next_dimid h5 + 1\<rparr>),
          grp\<lparr>grp_dim := grp_dim grp @ [new_dim]\<rparr>))"

definition nc4_dim_list_del :: "NC_DIM_INFO list \<Rightarrow> NC_DIM_INFO list" where
  "nc4_dim_list_del dims = butlast dims"

text \<open>
  The \<^verbatim>\<open>exit\<close> label of \<^verbatim>\<open>read_scale\<close>. \<open>attid\<close> is the identifier of the hidden
  attribute (\<open>-1\<close> when it was not opened), \<open>initial_next_dimid\<close> the local of type
  \<^verbatim>\<open>short\<close> that holds the file's next id as it was on entry, \<open>dimscale_created\<close> tells
  whether the dimension was added, in which case it is the last dimension of \<open>grp\<close>,
  and \<open>dim'\<close> is the content of \<^verbatim>\<open>*dim\<close>. On the recovery path the return code is the one
  of \<^verbatim>\<open>nc4_dim_list_del\<close>.
\<close>

definition read_scale_exit ::
  "hid_dataset \<Rightarrow> int \<Rightarrow> 16 word \<Rightarrow> bool \<Rightarrow> int \<Rightarrow> NC_FILE_INFO \<Rightarrow> NC_GRP_INFO
     \<Rightarrow> NC_DIM_INFO option \<Rightarrow> int \<times> NC_FILE_INFO \<times> NC_GRP_INFO \<times> NC_DIM_INFO option" where
  "read_scale_exit d attid initial_next_dimid dimscale_created retval h5 grp dim' =
     (let retval1 = (if attid > 0 \<and> ds_H5Aclose d < 0 then NC_EHDFERR else retval)
      in
        if retval1 < 0 \<and> dimscale_created then
          (NC_NOERR, h5\<lparr>h5_next_dimid := scast initial_next_dimid\<rparr>,
           grp\<lparr>grp_dim := nc4_dim_list_del (grp_dim grp)\<rparr>, dim')
        else (retval1, h5, grp, dim'))"

text \<open>
  \<^verbatim>\<open>read_scale\<close>, for a build with a \<^verbatim>\<open>size_t\<close> of eight bytes. The arguments are the
  answers about the dataset, its identifier, its name, the current and the maximal size
  of the scale; the result is the return code, the file and group records and the
  content of \<^verbatim>\<open>*dim\<close> (\<open>None\<close>: not written).
\<close>

definition read_scale ::
  "hid_dataset \<Rightarrow> int \<Rightarrow> string \<Rightarrow> 64 word \<Rightarrow> 64 word \<Rightarrow> NC_FILE_INFO \<Rightarrow> NC_GRP_INFO
     \<Rightarrow> int \<times> NC_FILE_INFO \<times> NC_GRP_INFO \<times> NC_DIM_INFO option" where
  "read_scale d datasetid obj_name scale_size max_scale_size h5 grp =
     (let initial_next_dimid = (ucast (h5_next_dimid h5) :: 16 word) in
      if ds_H5Aexists d < 0 then
        read_scale_exit d (-1) initial_next_dimid False NC_EHDFERR h5 grp None
      else if ds_H5Aexists d \<noteq> 0 \<and> ds_H5Aopen_name d < 0 then
        read_scale_exit d (ds_H5Aopen_name d) initial_next_dimid False NC_EHDFERR h5 grp None
      else if ds_H5Aexists d \<noteq> 0 \<and> ds_H5Aread d < 0 then
        read_scale_exit d (ds_H5Aopen_name d) initial_next_dimid False NC_EHDFERR h5 grp None
      else
        let attid = (if ds_H5Aexists d \<noteq> 0 then ds_H5Aopen_name d else -1);
            assigned_id = (if ds_H5Aexists d \<noteq> 0 then ds_assigned_id d else -1);
            h5a = (if ds_H5Aexists d \<noteq> 0 \<and> sint (h5_next_dimid h5) \<le> sint assigned_id
                   then h5\<lparr>h5_next_dimid := assigned_id + 1\<rparr> else h5);
            too_long = (SIZEOF_SIZE_T < 8 \<and> NC_MAX_UINT < scale_size);
            len = (if too_long then NC_MAX_UINT else scale_size)
        in
          case nc4_dim_list_add h5a grp obj_name len assigned_id of
            (h5b, grp1) \<Rightarrow>
              let dim1 = (last (grp_dim grp1))\<lparr>dim_too_long := too_long\<rparr>;
                  dim2 = (if max_scale_size = H5S_UNLIMITED
                          then dim1\<lparr>dim_unlimited := True\<rparr> else dim1)
              in
                if 0 \<le> ds_H5DSget_scale_name d
                   \<and> take (length DIM_WITHOUT_VARIABLE) (ds_scale_name d) = DIM_WITHOUT_VARIABLE
                then
                  (if dim_unlimited dim2 \<and> fst (ds_nc4_find_dim_len d) \<noteq> 0 then
                     read_scale_exit d attid initial_next_dimid True
                       (fst (ds_nc4_find_dim_len d)) h5b
                       (grp1\<lparr>grp_dim := butlast (grp_dim grp1) @ [dim2]\<rparr>) None
                   else
                     let dim3 = (if dim_unlimited dim2
                                 then dim2\<lparr>dim_len := snd (ds_nc4_find_dim_len d)\<rparr> else dim2);
                         dim4 = dim3\<lparr>dim_hdf_dimscaleid := datasetid\<rparr>
                     in read_scale_exit d attid initial_next_dimid True NC_NOERR h5b
                          (grp1\<lparr>grp_dim := butlast (grp_dim grp1) @ [dim4]\<rparr>) (Some dim4))
                else
                  read_scale_exit d attid initial_next_dimid True NC_NOERR h5b
                    (grp1\<lparr>grp_dim := butlast (grp_dim grp1) @ [dim2]\<rparr>) (Some dim2))"

text \<open>
  Concrete scales: a coordinate dimension of length 10 that stores the largest \<^verbatim>\<open>int\<close> as
  its id, and an unlimited dimension without variable for which looking up the length
  fails; a file whose next dimension id is 40000.
\<close>

definition plain_dataset :: hid_dataset where
  "plain_dataset =
     \<lparr>ds_H5Dget_space = 1, ds_ndims = 1, ds_H5DSis_scale = 0,
      ds_H5Sget_simple_extent_dims = 1, ds_dims0 = 10, ds_max_dims0 = 10,
      ds_H5Aexists = 0, ds_H5Aopen_name = -1, ds_H5Aread = -1, ds_assigned_id = 0,
      ds_H5Aclose = 0, ds_H5DSget_scale_name = -1, ds_scale_name = [],
      ds_nc4_find_dim_len = (NC_NOERR, 0), ds_read_var_body = 0, ds_H5Idec_ref = 0,
      ds_H5Pclose = 0\<rparr>"

definition max_id_scale :: hid_dataset where
  "max_id_scale =
     plain_dataset\<lparr>ds_H5DSis_scale := 1, ds_H5Aexists := 1, ds_H5Aopen_name := 5,
       ds_H5Aread := 0, ds_assigned_id := 0x7FFFFFFF\<rparr>"

definition failing_scale :: hid_dataset where
  "failing_scale =
     plain_dataset\<lparr>ds_H5DSis_scale := 1, ds_dims0 := 0, ds_max_dims0 := H5S_UNLIMITED,
       ds_H5DSget_scale_name := 0, ds_scale_name := DIM_WITHOUT_VARIABLE,
       ds_nc4_find_dim_len := (NC_EHDFERR, 0)\<rparr>"

definition many_dims_file :: NC_FILE_INFO where
  "many_dims_file = open_file\<lparr>h5_next_dimid := 40000\<rparr>"

section \<open>Reading the datasets of a group\<close>

definition NON_COORD_PREPEND :: string where
  "NON_COORD_PREPEND = ''_nc4_non_coord_''"

definition NC_MAX_NAME :: nat where
  "NC_MAX_NAME = 256"

text \<open>
  \<^verbatim>\<open>read_var\<close>, with its body summarised: between adding the variable to the group and
  the \<^verbatim>\<open>exit\<close> label the function asks the engine about chunking, filters, type, fill
  value and scales and calls into other files, and leaves for \<^verbatim>\<open>exit\<close> with the code of
  the first step that fails (\<open>ds_read_var_body\<close>; the type-not-representable code
  comes from \<^verbatim>\<open>get_type_info2\<close>). At \<^verbatim>\<open>exit\<close> a failure removes the variable again, and a
  failing release of the dataset reference or of a property list replaces the code.
  Modelled from the spec: \<^verbatim>\<open>nc4_var_list_add\<close> and \<^verbatim>\<open>nc4_var_list_del\<close> are defined in
  another file; the variables of a group are ordered by creation, the new one is
  appended, and deleting it restores the list.
\<close>

definition read_var ::
  "hid_dataset \<Rightarrow> string \<Rightarrow> NC_DIM_INFO option \<Rightarrow> NC_GRP_INFO \<Rightarrow> int \<times> NC_GRP_INFO" where
  "read_var d obj_name dim' grp =
     (let finalname =
            (if length obj_name > length NON_COORD_PREPEND
                \<and> take (length NON_COORD_PREPEND) obj_name = NON_COORD_PREPEND
             then drop (length NON_COORD_PREPEND) obj_name else obj_name);
          var = \<lparr>var_name = finalname, var_att = [], var_atts_not_read = True,
                 var_created = True, var_dimscale = (dim' \<noteq> None), var_written_to = False\<rparr>;
          retval = ds_read_var_body d;
          retval1 = (if retval \<noteq> 0 \<and> ds_H5Idec_ref d < 0 then NC_EHDFERR else retval);
          vars = (if retval \<noteq> 0 then grp_vars grp else grp_vars grp @ [Some var])
      in (if ds_H5Pclose d < 0 then NC_EHDFERR else retval1, grp\<lparr>grp_vars := vars\<rparr>))"

text \<open>
  \<^verbatim>\<open>read_dataset\<close>. (Closing the dataspace at \<^verbatim>\<open>exit\<close> does not change the return code.)
  After a recovery in \<^verbatim>\<open>read_scale\<close> that follows the assignment to \<^verbatim>\<open>*dim\<close>, the pointer
  is stale; the model reads the record as it was.
\<close>

definition read_dataset ::
  "hid_dataset \<Rightarrow> int \<Rightarrow> string \<Rightarrow> NC_FILE_INFO \<Rightarrow> NC_GRP_INFO
     \<Rightarrow> int \<times> NC_FILE_INFO \<times> NC_GRP_INFO" where
  "read_dataset d datasetid obj_name h5 grp =
     (if ds_H5Dget_space d < 0 then (NC_EHDFERR, h5, grp)
      else if ds_ndims d < 0 then (NC_EHDFERR, h5, grp)
      else if ds_H5DSis_scale d < 0 then (NC_EHDFERR, h5, grp)
      else if ds_H5DSis_scale d \<noteq> 0 \<and> ds_H5Sget_simple_extent_dims d < 0 then
        (NC_EHDFERR, h5, grp)
      else
        (case (if ds_H5DSis_scale d \<noteq> 0
               then read_scale d datasetid obj_name (ds_dims0 d) (ds_max_dims0 d) h5 grp
               else (NC_NOERR, h5, grp, None)) of
           (retval, h5', grp', dim') \<Rightarrow>
             if retval \<noteq> 0 then (retval, h5', grp')
             else if dim' = None \<or> dim_hdf_dimscaleid (the dim') = 0 then
               (case read_var d obj_name dim' grp' of (retval', grp'') \<Rightarrow> (retval', h5', grp''))
             else (NC_NOERR, h5', grp')))"

section \<open>The walk over the objects of a file\<close>

text \<open>
  The objects the engine holds in a group, in the order in which \<^verbatim>\<open>H5Literate\<close> visits
  them with the index the walk selects. An object has a name, the identifier
  \<^verbatim>\<open>H5Oopen\<close> returns for it, the return values of \<^verbatim>\<open>H5Gget_objinfo\<close> and \<^verbatim>\<open>H5Oclose\<close>, and
  a body by kind: a group (with the identifier \<^verbatim>\<open>H5Gopen2\<close> gives, whether creation
  order is tracked, the return value of \<^verbatim>\<open>H5Pclose\<close>, and its own objects), a dataset,
  a named type (with the return code of \<^verbatim>\<open>read_type\<close>, whose registration of the type is
  not modelled), or anything else.
\<close>

datatype hid_object =
  hid_object (o_name: string) (o_H5Oopen: int) (o_H5Gget_objinfo: int) (o_H5Oclose: int)
    (o_body: hid_body)
and hid_body = H5G_GROUP hid_group | H5G_DATASET hid_dataset | H5G_TYPE int | H5G_UNKNOWN
and hid_group =
  hid_group (g_H5Gopen2: int) (g_crt_order_tracked: bool) (g_H5Pclose: int)
    (g_links: "hid_object list")

abbreviation (input) H5_ITER_CONT :: int where "H5_ITER_CONT \<equiv> 0"
abbreviation (input) H5_ITER_ERROR :: int where "H5_ITER_ERROR \<equiv> -1"

text \<open>
  \<^verbatim>\<open>nc4_rec_read_metadata_cb\<close>. The user data of the iteration is the list of the child
  groups found so far (for each its name cut to \<^verbatim>\<open>NC_MAX_NAME\<close> characters, the return
  value of closing it later, and the group itself) and the group being read, beside
  the file record.
\<close>

type_synonym obj_info = "string \<times> int \<times> hid_group"

definition nc4_rec_read_metadata_cb ::
  "obj_info list \<times> NC_FILE_INFO \<times> NC_GRP_INFO \<Rightarrow> hid_object
     \<Rightarrow> int \<times> obj_info list \<times> NC_FILE_INFO \<times> NC_GRP_INFO" where
  "nc4_rec_read_metadata_cb udata obj =
     (case udata of
        (grps, h5, grp) \<Rightarrow>
          if o_H5Oopen obj < 0 then (H5_ITER_ERROR, udata)
          else if o_H5Gget_objinfo obj < 0 then (H5_ITER_ERROR, udata)
          else
            (case o_body obj of
               H5G_GROUP g \<Rightarrow>
                 (H5_ITER_CONT,
                  grps @ [(take NC_MAX_NAME (o_name obj), o_H5Oclose obj, g)], h5, grp)
             | H5G_DATASET d \<Rightarrow>
                 (case read_dataset d (o_H5Oopen obj) (take NC_MAX_NAME (o_name obj)) h5 grp of
                    (retval, h5', grp') \<Rightarrow>
                      if retval \<noteq> 0 \<and> NC_EBADTYPID \<noteq> retval then
                        (H5_ITER_ERROR, grps, h5', grp')
                      else if o_H5Oclose obj < 0 then (H5_ITER_ERROR, grps, h5', grp')
                      else (H5_ITER_CONT, grps, h5', grp'))
             | H5G_TYPE read_type \<Rightarrow>
                 if read_type \<noteq> 0 then (H5_ITER_ERROR, udata)
                 else if o_H5Oclose obj < 0 then (H5_ITER_ERROR, udata)
                 else (H5_ITER_CONT, udata)
             | H5G_UNKNOWN \<Rightarrow> (H5_ITER_ERROR, udata)))"

text \<open>
  Modelled from the spec: \<^verbatim>\<open>nc4_grp_list_add\<close> is defined in another file. The new group
  is added to the groups of the file, its identifier being the next free one, with the
  given group as parent. It returns \<^verbatim>\<open>NC_NOERR\<close>.
\<close>

definition nc4_grp_list_add :: "NC_FILE_INFO \<Rightarrow> nat \<Rightarrow> string \<Rightarrow> NC_FILE_INFO" where
  "nc4_grp_list_add h5 parent nm =
     h5\<lparr>h5_allgroups := h5_allgroups h5 @
        [\<lparr>grp_name = nm, grp_parent = Some parent, grp_vars = [], grp_dim = [], grp_att = [],
          grp_atts_not_read = False\<rparr>]\<rparr>"

text \<open>
  The \<^verbatim>\<open>exit\<close> label of \<^verbatim>\<open>nc4_rec_read_metadata\<close>: after an error the child groups found
  are closed, and a failing close replaces the return code.
\<close>

definition nc4_rec_read_metadata_exit :: "obj_info list \<Rightarrow> int \<Rightarrow> int" where
  "nc4_rec_read_metadata_exit grps retval =
     (if retval \<noteq> 0 \<and> list_ex (\<lambda>oinfo. fst (snd oinfo) < 0) grps then NC_EHDFERR
      else retval)"

fun obj_info_size :: "obj_info list \<Rightarrow> nat" where
  "obj_info_size [] = 0"
| "obj_info_size (oinfo # grps) = max (Suc (size (snd (snd oinfo)))) (obj_info_size grps)"

text \<open>
  \<^verbatim>\<open>nc4_rec_read_metadata\<close> on the group with identifier \<open>gid\<close>, and its loop over the
  child groups found, which adds each to the file and reads it recursively.
\<close>

function nc4_rec_read_metadata :: "hid_group \<Rightarrow> nat \<Rightarrow> NC_FILE_INFO \<Rightarrow> int \<times> NC_FILE_INFO"
  and nc4_rec_read_metadata_children ::
    "obj_info list \<Rightarrow> nat \<Rightarrow> NC_FILE_INFO \<Rightarrow> int \<times> NC_FILE_INFO" where
  "nc4_rec_read_metadata g gid h5 =
     (if g_H5Gopen2 g < 0 then (NC_EHDFERR, h5)
      else if g_H5Pclose g < 0 then (NC_EHDFERR, h5)
      else if \<not> g_crt_order_tracked g \<and> \<not> h5_no_write h5 then (NC_ECANTWRITE, h5)
      else
        (case H5iterate nc4_rec_read_metadata_cb (g_links g) ([], h5, h5_allgroups h5 ! gid) of
           (r, grps, h5a, grp) \<Rightarrow>
             let h5b = h5a\<lparr>h5_allgroups := (h5_allgroups h5a)[gid := grp]\<rparr> in
             if r < 0 then (nc4_rec_read_metadata_exit grps NC_EHDFERR, h5b)
             else
               (case nc4_rec_read_metadata_children grps gid h5b of
                  (retval, h5c) \<Rightarrow>
                    if retval \<noteq> 0 then (nc4_rec_read_metadata_exit grps retval, h5c)
                    else
                      (NC_NOERR,
                       h5c\<lparr>h5_allgroups := (h5_allgroups h5c)
                         [gid := (h5_allgroups h5c ! gid)
                            \<lparr>grp_atts_not_read := True,
                             grp_vars :=
                               nc4_rec_read_metadata_mark (grp_vars (h5_allgroups h5c ! gid))\<rparr>]\<rparr>))))"
| "nc4_rec_read_metadata_children [] gid h5 = (NC_NOERR, h5)"
| "nc4_rec_read_metadata_children (oinfo # grps) gid h5 =
     (case nc4_rec_read_metadata (snd (snd oinfo)) (length (h5_allgroups h5))
             (nc4_grp_list_add h5 gid (fst oinfo)) of
        (retval, h5') \<Rightarrow>
          if retval \<noteq> 0 then (retval, h5')
          else if fst (snd oinfo) < 0 then (NC_EHDFERR, h5')
          else nc4_rec_read_metadata_children grps gid h5')"
  by pat_completeness auto
termination
proof (relation "inv_image (less_than <*lex*> less_than)
    (\<lambda>x. case x of Inl (g, gid, h5) \<Rightarrow> (size g, 0)
                 | Inr (grps, gid, h5) \<Rightarrow> (obj_info_size grps, Suc (length grps)))",
    goal_cases)
  case 1
  show ?case by (intro wf_inv_image wf_lex_prod wf_less_than)
next
  case 2
  have size_bound:
    "obj_info_size grps' \<le> max (obj_info_size grps) (size_list size links)"
    if "H5iterate nc4_rec_read_metadata_cb links (grps, h5, grp) = (r, grps', h5', grp')"
    for links grps h5 grp r grps' h5' grp'
    using that
  proof (induction links arbitrary: grps h5 grp)
    case Nil
    then show ?case by simp
  next
    case (Cons obj links)
    obtain r1 g1 h1 p1 where cb: "nc4_rec_read_metadata_cb (grps, h5, grp) obj = (r1, g1, h1, p1)"
      by (cases "nc4_rec_read_metadata_cb (grps, h5, grp) obj") auto
    have "g1 = grps \<or> (\<exists>g. o_body obj = H5G_GROUP g
            \<and> g1 = grps @ [(take NC_MAX_NAME (o_name obj), o_H5Oclose obj, g)])"
      using cb unfolding nc4_rec_read_metadata_cb_def
      by (auto split: if_splits hid_body.splits prod.splits)
    moreover have "obj_info_size (xs @ [x]) = max (obj_info_size xs) (Suc (size (snd (snd x))))"
      for xs x
      by (induction xs) auto
    moreover have "size g < size obj" if "o_body obj = H5G_GROUP g" for g
      using that by (cases obj) simp
    ultimately have s1: "obj_info_size g1 \<le> max (obj_info_size grps) (size obj)"
      by (fastforce simp: Suc_le_eq)
    show ?case
    proof (cases "r1 \<noteq> 0")
      case True
      with Cons.prems cb have "grps' = g1" by simp
      with s1 show ?thesis by simp
    next
      case False
      with Cons.prems cb have "H5iterate nc4_rec_read_metadata_cb links (g1, h1, p1) = (r, grps', h5', grp')"
        by simp
      from Cons.IH [OF this] s1 show ?thesis by simp
    qed
  qed
  have smaller: "obj_info_size grps' < size g"
    if "H5iterate nc4_rec_read_metadata_cb (g_links g) ([], h5, grp) = (r, grps', h5', grp')"
    for g h5 grp r grps' h5' grp'
  proof -
    from size_bound [OF that]
    have "obj_info_size grps' \<le> size_list size (g_links g)" by simp
    moreover have "size_list size (g_links g) < size g" by (cases g) simp
    ultimately show ?thesis by simp
  qed
  from 2 show ?case by (auto dest: smaller [OF sym])
next
  case 3
  then show ?case by (auto simp: max_def)
next
  case 4
  then show ?case by (auto simp: max_def)
qed

declare nc4_rec_read_metadata.simps [simp del]





section \<open>Properties of the reserved-attribute table\<close>

lemma strcmp_zero_iff: "strcmp a b = 0 \<longleftrightarrow> a = b"
  by (induction a b rule: strcmp.induct) auto

lemma NC_findreserved_loop_sound:
  "NC_findreserved_loop nm L R = Some p \<Longrightarrow> name p = nm"
proof (induction nm L R rule: NC_findreserved_loop.induct)
  case (1 nm L R)
  then show ?case
    by (subst (asm) (3) NC_findreserved_loop.simps)
      (auto simp: Let_def strcmp_zero_iff split: if_splits)
qed

lemma NC_findreserved_sound: "NC_findreserved nm = Some p \<Longrightarrow> name p = nm"
  by (simp add: NC_findreserved_def Let_def NC_findreserved_loop_sound)

lemma NC_findreserved_entries:
  "NC_findreserved ''CLASS'' = Some \<lparr>name = ''CLASS'', flags = {READONLYFLAG, DIMSCALEFLAG}\<rparr>"
  "NC_findreserved ''DIMENSION_LIST'' =
     Some \<lparr>name = ''DIMENSION_LIST'', flags = {READONLYFLAG, DIMSCALEFLAG}\<rparr>"
  "NC_findreserved ''NAME'' = Some \<lparr>name = ''NAME'', flags = {READONLYFLAG, DIMSCALEFLAG}\<rparr>"
  "NC_findreserved ''REFERENCE_LIST'' =
     Some \<lparr>name = ''REFERENCE_LIST'', flags = {READONLYFLAG, DIMSCALEFLAG}\<rparr>"
  "NC_findreserved ''_Format'' = Some \<lparr>name = ''_Format'', flags = {READONLYFLAG}\<rparr>"
  "NC_findreserved ''_IsNetcdf4'' =
     Some \<lparr>name = ''_IsNetcdf4'', flags = {READONLYFLAG, NAMEONLYFLAG}\<rparr>"
  "NC_findreserved ''_NCProperties'' =
     Some \<lparr>name = ''_NCProperties'', flags = {READONLYFLAG, NAMEONLYFLAG}\<rparr>"
  "NC_findreserved ''_Netcdf4Coordinates'' =
     Some \<lparr>name = ''_Netcdf4Coordinates'', flags = {READONLYFLAG, DIMSCALEFLAG}\<rparr>"
  "NC_findreserved ''_Netcdf4Dimid'' =
     Some \<lparr>name = ''_Netcdf4Dimid'', flags = {READONLYFLAG, DIMSCALEFLAG}\<rparr>"
  "NC_findreserved ''_SuperblockVersion'' =
     Some \<lparr>name = ''_SuperblockVersion'', flags = {READONLYFLAG, NAMEONLYFLAG}\<rparr>"
  "NC_findreserved ''_nc3_strict'' = Some \<lparr>name = ''_nc3_strict'', flags = {READONLYFLAG}\<rparr>"
  by code_simp+

lemma NC_findreserved_loop_step:
  assumes "NC_findreserved_loop nm L R = Some q"
  shows "L \<le> R \<and>
     (strcmp (name (NC_reserved ! nat ((L + R) div 2))) nm = 0 \<and> q = NC_reserved ! nat ((L + R) div 2)
      \<or> strcmp (name (NC_reserved ! nat ((L + R) div 2))) nm < 0
          \<and> NC_findreserved_loop nm ((L + R) div 2 + 1) R = Some q
      \<or> strcmp (name (NC_reserved ! nat ((L + R) div 2))) nm > 0
          \<and> NC_findreserved_loop nm L ((L + R) div 2 - 1) = Some q)"
  using assms
  by (subst (asm) NC_findreserved_loop.simps) (auto simp: Let_def split: if_splits)

lemma NC_findreserved_loop_in_table:
  "NC_findreserved_loop nm L R = Some q \<Longrightarrow> 0 \<le> L \<Longrightarrow> R \<le> 10 \<Longrightarrow> q \<in> set NC_reserved"
proof (induction nm L R rule: NC_findreserved_loop.induct)
  case (1 nm L R)
  from NC_findreserved_loop_step [OF "1.prems"(1)]
  have le: "L \<le> R" and step:
    "strcmp (name (NC_reserved ! nat ((L + R) div 2))) nm = 0 \<and> q = NC_reserved ! nat ((L + R) div 2)
      \<or> strcmp (name (NC_reserved ! nat ((L + R) div 2))) nm < 0
          \<and> NC_findreserved_loop nm ((L + R) div 2 + 1) R = Some q
      \<or> strcmp (name (NC_reserved ! nat ((L + R) div 2))) nm > 0
          \<and> NC_findreserved_loop nm L ((L + R) div 2 - 1) = Some q"
    by simp_all
  have len: "length NC_reserved = 11" by (simp add: NC_reserved_def)
  have inr: "NC_reserved ! nat ((L + R) div 2) \<in> set NC_reserved"
    using le "1.prems"(2,3) len by (intro nth_mem) linarith
  from step show ?case
  proof (elim disjE conjE)
    assume "q = NC_reserved ! nat ((L + R) div 2)"
    with inr show ?thesis by simp
  next
    assume lt: "strcmp (name (NC_reserved ! nat ((L + R) div 2))) nm < 0"
      and rec: "NC_findreserved_loop nm ((L + R) div 2 + 1) R = Some q"
    have "strcmp (name (NC_reserved ! nat ((L + R) div 2))) nm \<noteq> 0" using lt by simp
    from "1.IH"(1) [OF _ refl refl refl this lt rec] le "1.prems"(2,3)
    show ?thesis by simp
  next
    assume gt: "strcmp (name (NC_reserved ! nat ((L + R) div 2))) nm > 0"
      and rec: "NC_findreserved_loop nm L ((L + R) div 2 - 1) = Some q"
    have ne: "strcmp (name (NC_reserved ! nat ((L + R) div 2))) nm \<noteq> 0" using gt by simp
    have nlt: "\<not> strcmp (name (NC_reserved ! nat ((L + R) div 2))) nm < 0" using gt by simp
    from "1.IH"(2) [OF _ refl refl refl ne nlt rec] le "1.prems"(2,3)
    show ?thesis by simp
  qed
qed

lemma NC_findreserved_absent:
  assumes "nm \<notin> name ` set NC_reserved"
  shows "NC_findreserved nm = None"
proof (cases "NC_findreserved nm")
  case None
  then show ?thesis .
next
  case (Some p)
  then have "name p = nm" by (rule NC_findreserved_sound)
  moreover from Some have "p \<in> set NC_reserved"
    by (auto simp: NC_findreserved_def Let_def NRESERVED_def dest: NC_findreserved_loop_in_table)
  ultimately show ?thesis using assms by auto
qed

lemma names_of_table:
  "name ` set NC_reserved =
     {''CLASS'', ''DIMENSION_LIST'', ''NAME'', ''REFERENCE_LIST'', ''_Format'', ''_IsNetcdf4'',
      ''_NCProperties'', ''_Netcdf4Coordinates'', ''_Netcdf4Dimid'', ''_SuperblockVersion'',
      ''_nc3_strict''}"
  unfolding NC_reserved_def by (simp only: list.set image_insert image_empty NC_reservedatt.select_convs)

lemma find_entries:
  "find (\<lambda>e. name e = ''CLASS'') NC_reserved = NC_findreserved ''CLASS''"
  "find (\<lambda>e. name e = ''DIMENSION_LIST'') NC_reserved = NC_findreserved ''DIMENSION_LIST''"
  "find (\<lambda>e. name e = ''NAME'') NC_reserved = NC_findreserved ''NAME''"
  "find (\<lambda>e. name e = ''REFERENCE_LIST'') NC_reserved = NC_findreserved ''REFERENCE_LIST''"
  "find (\<lambda>e. name e = ''_Format'') NC_reserved = NC_findreserved ''_Format''"
  "find (\<lambda>e. name e = ''_IsNetcdf4'') NC_reserved = NC_findreserved ''_IsNetcdf4''"
  "find (\<lambda>e. name e = ''_NCProperties'') NC_reserved = NC_findreserved ''_NCProperties''"
  "find (\<lambda>e. name e = ''_Netcdf4Coordinates'') NC_reserved = NC_findreserved ''_Netcdf4Coordinates''"
  "find (\<lambda>e. name e = ''_Netcdf4Dimid'') NC_reserved = NC_findreserved ''_Netcdf4Dimid''"
  "find (\<lambda>e. name e = ''_SuperblockVersion'') NC_reserved = NC_findreserved ''_SuperblockVersion''"
  "find (\<lambda>e. name e = ''_nc3_strict'') NC_reserved = NC_findreserved ''_nc3_strict''"
  unfolding NC_findreserved_entries by (simp_all add: NC_reserved_def)

text \<open>
  C8. For every name, the reserved-attribute lookup returns the table entry carrying that
  name, with the flags the table gives it, when the name is one of the eleven reserved
  names, and returns the absent result for every other name: the binary search agrees
  with a linear scan of the table.
\<close>

theorem NC_findreserved_lookup:
  "NC_findreserved nm = find (\<lambda>e. name e = nm) NC_reserved"
proof (cases "nm \<in> name ` set NC_reserved")
  case True
  then have "nm \<in> {''CLASS'', ''DIMENSION_LIST'', ''NAME'', ''REFERENCE_LIST'', ''_Format'',
      ''_IsNetcdf4'', ''_NCProperties'', ''_Netcdf4Coordinates'', ''_Netcdf4Dimid'',
      ''_SuperblockVersion'', ''_nc3_strict''}"
    unfolding names_of_table .
  then show ?thesis
    by (elim insertE emptyE) (simp_all only: find_entries)
next
  case False
  then have "find (\<lambda>e. name e = nm) NC_reserved = None"
    by (auto simp: find_None_iff)
  with False show ?thesis by (simp add: NC_findreserved_absent)
qed


section \<open>The order of the native type comparisons\<close>

text \<open>
  C5, as amended. For every native integer or floating-point type descriptor,
  \<^verbatim>\<open>get_netcdf_type\<close> hands the descriptor to \<^verbatim>\<open>H5Tequal\<close> against the native constants in
  the order signed char, short, int, float, double, unsigned char, unsigned short,
  unsigned int, long long, unsigned long long, and returns the type of the first match:
  the 64-bit signed integer is compared after the unsigned 8, 16 and 32-bit integers,
  not before float.
\<close>

theorem get_netcdf_type_source_order:
  assumes "H5Tget_class t = H5T_INTEGER \<or> H5Tget_class t = H5T_FLOAT"
  shows "get_netcdf_type find_type t xtype = first_match find_type t xtype [] source_order"
proof -
  have "H5Tget_class t \<noteq> H5T_NO_CLASS" "H5Tget_class t \<noteq> H5T_STRING"
    using assms by auto
  with assms show ?thesis
    unfolding get_netcdf_type_def source_order_def by (simp del: disj_not1)
qed

theorem get_netcdf_type_source_order_witness:
  "(H5Tget_class llong_type = H5T_INTEGER \<or> H5Tget_class llong_type = H5T_FLOAT) \<and>
   get_netcdf_type no_user_types llong_type NC_NAT =
     ([H5T_NATIVE_SCHAR, H5T_NATIVE_SHORT, H5T_NATIVE_INT, H5T_NATIVE_FLOAT,
       H5T_NATIVE_DOUBLE, H5T_NATIVE_UCHAR, H5T_NATIVE_USHORT, H5T_NATIVE_UINT,
       H5T_NATIVE_LLONG], NC_NOERR, NC_INT64)"
proof -
  have c: "H5Tget_class llong_type = H5T_INTEGER \<or> H5Tget_class llong_type = H5T_FLOAT"
    by (simp add: llong_type_def)
  show ?thesis
    using c get_netcdf_type_source_order [OF c, of no_user_types NC_NAT]
    by (simp add: source_order_def llong_type_def)
qed

text \<open>
  The order as the claim words it, with the 64-bit signed integer before float, is not
  the order of the source: for the native \<^verbatim>\<open>long long\<close> descriptor the source makes nine
  comparisons where the worded order makes four, and for a descriptor that the engine
  reports equal to both \<^verbatim>\<open>unsigned int\<close> and \<^verbatim>\<open>long long\<close> the two orders return
  different types.
\<close>

theorem get_netcdf_type_specified_order_counterexample:
  "get_netcdf_type no_user_types llong_type NC_NAT
     \<noteq> first_match no_user_types llong_type NC_NAT [] specified_order
   \<and> snd (get_netcdf_type no_user_types aliased_type NC_NAT)
     \<noteq> snd (first_match no_user_types aliased_type NC_NAT [] specified_order)"
  by (simp add: get_netcdf_type_def specified_order_def llong_type_def aliased_type_def)


section \<open>The length of an attribute\<close>
















section \<open>Reserved names among the attributes read\<close>

lemma read_hdf5_att_name_snd:
  "att_name (snd (read_hdf5_att f tlen a att)) = att_name att"
  unfolding read_hdf5_att_def
  by (simp add: Let_def split: option.split prod.split sum.split)

lemma read_hdf5_att_name:
  "read_hdf5_att f tlen a att = (r, att') \<Longrightarrow> att_name att' = att_name att"
  using read_hdf5_att_name_snd [of f tlen a att] by simp

lemma H5iterate_invariant:
  assumes "\<And>s x r s'. P s \<Longrightarrow> op s x = (r, s') \<Longrightarrow> P s'"
  shows "P s \<Longrightarrow> H5iterate op xs s = (r, s') \<Longrightarrow> P s'"
proof (induction xs arbitrary: s)
  case Nil
  then show ?case by simp
next
  case (Cons x xs)
  obtain r1 s1 where step: "op s x = (r1, s1)" by (cases "op s x")
  have "P s1" using assms [OF Cons.prems(1) step] .
  with Cons step show ?case by (auto split: if_splits)
qed

lemma att_read_var_callbk_unreserved:
  assumes "\<forall>x\<in>set atts. NC_findreserved (att_name x) = None"
    and "att_read_var_callbk f tlen atts a = (r, atts')"
  shows "\<forall>x\<in>set atts'. NC_findreserved (att_name x) = None"
proof (cases "NC_findreserved (H5A_name a) = None")
  case False
  with assms show ?thesis by (auto simp: att_read_var_callbk_def)
next
  case True
  obtain rv att where rd:
    "read_hdf5_att f tlen a \<lparr>att_name = H5A_name a, att_nc_typeid = 0, att_len = 0,
        att_created = False\<rparr> = (rv, att)"
    by (cases "read_hdf5_att f tlen a \<lparr>att_name = H5A_name a, att_nc_typeid = 0, att_len = 0,
        att_created = False\<rparr>")
  from read_hdf5_att_name [OF rd] have nm: "att_name att = H5A_name a" by simp
  from assms True rd nm show ?thesis
    by (auto simp: att_read_var_callbk_def nc4_att_list_add_def nc4_att_list_del_def Let_def
          split: if_splits)
qed


lemma not_hidden_visible:
  assumes "strcmp nm NC3_STRICT_ATT_NAME \<noteq> 0"
    and "\<not> (grp_parent grp = None \<and>
            (case NC_findreserved nm of None \<Rightarrow> False | Some ra \<Rightarrow> NAMEONLYFLAG \<in> flags ra))"
  shows "group_visible grp nm"
proof -
  have "nm \<noteq> ''_nc3_strict''"
    using assms(1) by (simp add: strcmp_zero_iff NC3_STRICT_ATT_NAME_def)
  moreover have "nm \<noteq> ''_IsNetcdf4'' \<and> nm \<noteq> ''_NCProperties'' \<and> nm \<noteq> ''_SuperblockVersion''"
    if "grp_parent grp = None"
  proof -
    have "nm = ''_IsNetcdf4'' \<Longrightarrow> False" "nm = ''_NCProperties'' \<Longrightarrow> False"
      "nm = ''_SuperblockVersion'' \<Longrightarrow> False"
      using assms(2) that by (simp_all add: NC_findreserved_entries)
    then show ?thesis by blast
  qed
  ultimately show ?thesis by (simp add: group_visible_def)
qed


lemma loop_open_fails:
  "H5Aopen a < 0 \<Longrightarrow>
     nc4_read_grp_atts_loop f tlen ft (a # as) h5 grp = (NC_EATTMETA, True, h5, grp)"
  by simp

lemma loop_name_fails:
  "\<not> H5Aopen a < 0 \<Longrightarrow> H5Aget_name a < 0 \<Longrightarrow>
     nc4_read_grp_atts_loop f tlen ft (a # as) h5 grp =
       (if H5Aopen a > 0 \<and> H5Aclose a < 0 then NC_EHDFERR else NC_EATTMETA, True, h5, grp)"
  by simp

lemma loop_strict:
  "\<not> H5Aopen a < 0 \<Longrightarrow> \<not> H5Aget_name a < 0 \<Longrightarrow>
   strcmp (H5A_name a) NC3_STRICT_ATT_NAME = 0 \<Longrightarrow>
     nc4_read_grp_atts_loop f tlen ft (a # as) h5 grp =
       nc4_read_grp_atts_loop f tlen ft as (h5\<lparr>h5_cmode := h5_cmode h5 OR NC_CLASSIC_MODEL\<rparr>) grp"
  by (simp add: Let_def)

lemma loop_hidden:
  "\<not> H5Aopen a < 0 \<Longrightarrow> \<not> H5Aget_name a < 0 \<Longrightarrow>
   strcmp (H5A_name a) NC3_STRICT_ATT_NAME \<noteq> 0 \<Longrightarrow>
   grp_parent grp = None \<and>
      (case NC_findreserved (H5A_name a) of None \<Rightarrow> False | Some ra \<Rightarrow> NAMEONLYFLAG \<in> flags ra) \<Longrightarrow>
     nc4_read_grp_atts_loop f tlen ft (a # as) h5 grp =
       nc4_read_grp_atts_loop f tlen ft as h5 grp"
  by (simp add: Let_def)


lemma loop_read:
  assumes "\<not> H5Aopen a < 0" "\<not> H5Aget_name a < 0"
    and "strcmp (H5A_name a) NC3_STRICT_ATT_NAME \<noteq> 0"
    and "\<not> (grp_parent grp = None \<and>
      (case NC_findreserved (H5A_name a) of None \<Rightarrow> False | Some ra \<Rightarrow> NAMEONLYFLAG \<in> flags ra))"
    and "read_hdf5_att f tlen a (new_att (H5A_name a)) = (rv, att)"
  shows "nc4_read_grp_atts_loop f tlen ft (a # as) h5 grp =
     (if rv = NC_EBADTYPID then nc4_read_grp_atts_loop f tlen ft as h5 grp
      else if rv \<noteq> 0 then
        (if H5Aopen a > 0 \<and> H5Aclose a < 0 then NC_EHDFERR else rv, True, h5,
         grp\<lparr>grp_att := grp_att grp @ [att]\<rparr>)
      else if ft (att_nc_typeid att) \<noteq> 0 then
        (if H5Aopen a > 0 \<and> H5Aclose a < 0 then NC_EHDFERR else ft (att_nc_typeid att), True, h5,
         grp\<lparr>grp_att := grp_att grp @ [att\<lparr>att_created := True\<rparr>]\<rparr>)
      else nc4_read_grp_atts_loop f tlen ft as h5
         (grp\<lparr>grp_att := grp_att grp @ [att\<lparr>att_created := True\<rparr>]\<rparr>))"
proof -
  have l: "last (nc4_att_list_add (grp_att grp) (H5A_name a)) = new_att (H5A_name a)"
    and b: "butlast (nc4_att_list_add (grp_att grp) (H5A_name a)) = grp_att grp"
    and d: "nc4_att_list_del (nc4_att_list_add (grp_att grp) (H5A_name a)) = grp_att grp"
    by (simp_all add: nc4_att_list_add_def nc4_att_list_del_def new_att_def)
  have g: "grp\<lparr>grp_att := grp_att grp\<rparr> = grp" by simp
  show ?thesis
    using assms(1-4) by (simp add: Let_def l b d g assms(5))
qed

lemma group_visible_parent:
  "grp_parent g = grp_parent grp \<Longrightarrow> group_visible g nm = group_visible grp nm"
  by (simp add: group_visible_def)

lemma nc4_read_grp_atts_loop_visible:
  assumes "nc4_read_grp_atts_loop f tlen ft as h5 grp = (r, b, h5', grp')"
    and "\<forall>x\<in>set (grp_att grp). group_visible grp (att_name x)"
  shows "(\<forall>x\<in>set (grp_att grp'). group_visible grp (att_name x)) \<and> grp_parent grp' = grp_parent grp"
  using assms
proof (induction as arbitrary: h5 grp)
  case Nil
  then show ?case by simp
next
  case (Cons a as)
  note eq = Cons.prems(1) and inv = Cons.prems(2)
  obtain rv att where rd: "read_hdf5_att f tlen a (new_att (H5A_name a)) = (rv, att)"
    by (cases "read_hdf5_att f tlen a (new_att (H5A_name a))")
  from read_hdf5_att_name [OF rd] have nm: "att_name att = H5A_name a"
    by (simp add: new_att_def)
  show ?case
  proof (cases "H5Aopen a < 0")
    case True
    from eq inv show ?thesis unfolding loop_open_fails [OF True] by simp
  next
    case o: False
    show ?thesis
    proof (cases "H5Aget_name a < 0")
      case True
      from eq inv show ?thesis unfolding loop_name_fails [OF o True] by simp
    next
      case n: False
      show ?thesis
      proof (cases "strcmp (H5A_name a) NC3_STRICT_ATT_NAME = 0")
        case True
        from eq have "nc4_read_grp_atts_loop f tlen ft as
            (h5\<lparr>h5_cmode := h5_cmode h5 OR NC_CLASSIC_MODEL\<rparr>) grp = (r, b, h5', grp')"
          unfolding loop_strict [OF o n True] .
        from Cons.IH [OF this inv] show ?thesis .
      next
        case ns: False
        show ?thesis
        proof (cases "grp_parent grp = None \<and>
            (case NC_findreserved (H5A_name a) of None \<Rightarrow> False
             | Some ra \<Rightarrow> NAMEONLYFLAG \<in> flags ra)")
          case True
          from eq have "nc4_read_grp_atts_loop f tlen ft as h5 grp = (r, b, h5', grp')"
            unfolding loop_hidden [OF o n ns True] .
          from Cons.IH [OF this inv] show ?thesis .
        next
          case nh: False
          have v: "group_visible grp (H5A_name a)" using not_hidden_visible [OF ns nh] .
          note step = loop_read [OF o n ns nh rd, of ft as h5]
          let ?g = "grp\<lparr>grp_att := grp_att grp @ [att\<lparr>att_created := True\<rparr>]\<rparr>"
          have pg: "\<forall>x\<in>set (grp_att ?g). group_visible ?g (att_name x)"
            using inv v nm by (auto simp: group_visible_parent [of ?g grp])
          consider (bad) "rv = NC_EBADTYPID" | (err) "rv \<noteq> NC_EBADTYPID" "rv \<noteq> 0"
            | (unknown) "rv = 0" "ft (att_nc_typeid att) \<noteq> 0"
            | (good) "rv = 0" "ft (att_nc_typeid att) = 0" by auto
          then show ?thesis
          proof cases
            case bad
            from eq have "nc4_read_grp_atts_loop f tlen ft as h5 grp = (r, b, h5', grp')"
              unfolding step using bad by simp
            from Cons.IH [OF this inv] show ?thesis .
          next
            case err
            from eq have "grp' = grp\<lparr>grp_att := grp_att grp @ [att]\<rparr>"
              unfolding step using err by simp
            with inv v nm show ?thesis by auto
          next
            case unknown
            from eq have "grp' = ?g"
              unfolding step using unknown by simp
            with inv v nm show ?thesis by auto
          next
            case good
            from eq have "nc4_read_grp_atts_loop f tlen ft as h5 ?g = (r, b, h5', grp')"
              unfolding step using good by simp
            from Cons.IH [OF this pg] show ?thesis
              by (simp add: group_visible_parent [of ?g grp])
          qed
        qed
      qed
    qed
  qed
qed


lemma read_int_scalar_att:
  "read_hdf5_att no_user_types all_types_known (int_scalar_att nm) (new_att nm')
     = (NC_NOERR, (new_att nm')\<lparr>att_nc_typeid := NC_INT, att_len := 1\<rparr>)"
proof -
  have cl: "get_netcdf_type no_user_types int_type (att_nc_typeid (new_att nm'))
      = ([H5T_NATIVE_SCHAR, H5T_NATIVE_SHORT, H5T_NATIVE_INT], NC_NOERR, NC_INT)"
    by (simp add: get_netcdf_type_def int_type_def new_att_def)
  have tc: "H5Tget_class int_type = H5T_INTEGER" by (simp add: int_type_def)
  show ?thesis
    by (simp add: read_hdf5_att_def int_scalar_att_def cl tc read_hdf5_att_len_def)
qed

lemma NC_findreserved_ordinary:
  "NC_findreserved ''units'' = None" "NC_findreserved ''title'' = None"
  by code_simp+

lemma att_read_var_callbk_int_scalar:
  "att_read_var_callbk no_user_types all_types_known atts (int_scalar_att nm) =
     (if NC_findreserved nm \<noteq> None then (NC_NOERR, atts)
      else (NC_NOERR, atts @ [(new_att nm)\<lparr>att_nc_typeid := NC_INT, att_len := 1, att_created := True\<rparr>]))"
proof -
  have l: "last (nc4_att_list_add atts nm) = new_att nm"
    and b: "butlast (nc4_att_list_add atts nm) = atts"
    by (simp_all add: nc4_att_list_add_def new_att_def)
  have n: "H5A_name (int_scalar_att nm) = nm" "H5Aopen (int_scalar_att nm) = 1"
    by (simp_all add: int_scalar_att_def)
  show ?thesis
    by (simp add: att_read_var_callbk_def Let_def n l b read_int_scalar_att)
qed

text \<open>
  C3, as amended. For every variable, no reserved attribute name appears in the
  attribute collection produced by reading its attributes: the callback drops every name
  the registry knows. For a group, the attribute named \<^verbatim>\<open>_nc3_strict\<close> is never added, and
  in the root group the three names flagged name-only (\<^verbatim>\<open>_IsNetcdf4\<close>,
  \<^verbatim>\<open>_NCProperties\<close>, \<^verbatim>\<open>_SuperblockVersion\<close>) are never added; the other reserved names
  are read on a group like ordinary attributes.
\<close>

theorem reserved_attribute_hiding:
  assumes "\<forall>x\<in>set (var_att var). NC_findreserved (att_name x) = None"
    and "\<forall>x\<in>set (grp_att grp). group_visible grp (att_name x)"
  shows "(\<forall>x\<in>set (var_att (snd (nc4_read_var_atts find_type typelen var attrs))).
            NC_findreserved (att_name x) = None)
       \<and> (\<forall>x\<in>set (grp_att (snd (snd
              (nc4_read_grp_atts find_type typelen nc4_find_type attrs' h5 grp)))).
            group_visible grp (att_name x))"
proof
  obtain r atts where it:
    "H5iterate (att_read_var_callbk find_type typelen) attrs (var_att var) = (r, atts)"
    by (cases "H5iterate (att_read_var_callbk find_type typelen) attrs (var_att var)")
  have "\<forall>x\<in>set atts. NC_findreserved (att_name x) = None"
    by (rule H5iterate_invariant
        [where P = "\<lambda>s. \<forall>x\<in>set s. NC_findreserved (att_name x) = None", OF _ assms(1) it])
      (rule att_read_var_callbk_unreserved)
  then show "\<forall>x\<in>set (var_att (snd (nc4_read_var_atts find_type typelen var attrs))).
      NC_findreserved (att_name x) = None"
    by (simp add: nc4_read_var_atts_def it)
next
  obtain r b h5' grp' where lp:
    "nc4_read_grp_atts_loop find_type typelen nc4_find_type attrs' h5 grp = (r, b, h5', grp')"
    by (cases "nc4_read_grp_atts_loop find_type typelen nc4_find_type attrs' h5 grp") auto
  from nc4_read_grp_atts_loop_visible [OF lp assms(2)]
  show "\<forall>x\<in>set (grp_att (snd (snd
      (nc4_read_grp_atts find_type typelen nc4_find_type attrs' h5 grp)))).
      group_visible grp (att_name x)"
    by (simp add: nc4_read_grp_atts_def lp)
qed

lemma loop_int_scalar:
  assumes "strcmp nm NC3_STRICT_ATT_NAME \<noteq> 0"
    and "\<not> (grp_parent grp = None \<and>
      (case NC_findreserved nm of None \<Rightarrow> False | Some ra \<Rightarrow> NAMEONLYFLAG \<in> flags ra))"
  shows "nc4_read_grp_atts_loop no_user_types all_types_known all_types_known
           (int_scalar_att nm # as) h5 grp =
         nc4_read_grp_atts_loop no_user_types all_types_known all_types_known as h5
           (grp\<lparr>grp_att := grp_att grp @
              [(new_att nm)\<lparr>att_nc_typeid := NC_INT, att_len := 1, att_created := True\<rparr>]\<rparr>)"
proof -
  have n: "H5A_name (int_scalar_att nm) = nm" "\<not> H5Aopen (int_scalar_att nm) < 0"
    "\<not> H5Aget_name (int_scalar_att nm) < 0"
    by (simp_all add: int_scalar_att_def)
  have rd: "read_hdf5_att no_user_types all_types_known (int_scalar_att nm)
      (new_att (H5A_name (int_scalar_att nm)))
     = (NC_NOERR, (new_att nm)\<lparr>att_nc_typeid := NC_INT, att_len := 1\<rparr>)"
    by (simp add: n read_int_scalar_att)
  from assms have a1: "strcmp (H5A_name (int_scalar_att nm)) NC3_STRICT_ATT_NAME \<noteq> 0"
    and a2: "\<not> (grp_parent grp = None \<and>
      (case NC_findreserved (H5A_name (int_scalar_att nm)) of None \<Rightarrow> False
       | Some ra \<Rightarrow> NAMEONLYFLAG \<in> flags ra))"
    by (simp_all add: n)
  show ?thesis
    unfolding loop_read [OF n(2) n(3) a1 a2 rd] by simp
qed

text \<open>
  Reading the attributes of a group does surface reserved names: \<^verbatim>\<open>_Format\<close> on the root
  group, and \<^verbatim>\<open>_NCProperties\<close> on a group below the root.
\<close>

theorem reserved_attribute_hiding_counterexample:
  "map att_name (grp_att (snd (snd
      (nc4_read_grp_atts no_user_types all_types_known all_types_known
         [int_scalar_att ''_Format''] open_file root_grp)))) = [''_Format'']
   \<and> NC_findreserved ''_Format'' \<noteq> None
   \<and> map att_name (grp_att (snd (snd
      (nc4_read_grp_atts no_user_types all_types_known all_types_known
         [int_scalar_att ''_NCProperties''] open_file child_grp)))) = [''_NCProperties'']
   \<and> NC_findreserved ''_NCProperties'' \<noteq> None"
proof -
  have s1: "strcmp ''_Format'' NC3_STRICT_ATT_NAME \<noteq> 0"
    and s2: "strcmp ''_NCProperties'' NC3_STRICT_ATT_NAME \<noteq> 0"
    by (simp_all add: strcmp_zero_iff NC3_STRICT_ATT_NAME_def)
  have h1: "\<not> (grp_parent root_grp = None \<and>
      (case NC_findreserved ''_Format'' of None \<Rightarrow> False | Some ra \<Rightarrow> NAMEONLYFLAG \<in> flags ra))"
    by (simp add: NC_findreserved_entries)
  have h2: "\<not> (grp_parent child_grp = None \<and>
      (case NC_findreserved ''_NCProperties'' of None \<Rightarrow> False
       | Some ra \<Rightarrow> NAMEONLYFLAG \<in> flags ra))"
    by (simp add: child_grp_def)
  show ?thesis
    unfolding nc4_read_grp_atts_def loop_int_scalar [OF s1 h1] loop_int_scalar [OF s2 h2]
    by (simp add: NC_findreserved_entries root_grp_def child_grp_def new_att_def)
qed

theorem reserved_attribute_hiding_witness:
  "map att_name (var_att (snd
      (nc4_read_var_atts no_user_types all_types_known (fresh_var ''v'')
         [int_scalar_att ''units'', int_scalar_att ''_Netcdf4Dimid'', int_scalar_att ''CLASS'']))) = [''units'']
   \<and> map att_name (grp_att (snd (snd
      (nc4_read_grp_atts no_user_types all_types_known all_types_known
         [int_scalar_att ''title'', int_scalar_att ''_NCProperties'', int_scalar_att ''_nc3_strict'']
         open_file root_grp)))) = [''title'']"
proof -
  have v: "\<forall>x\<in>set (var_att (fresh_var ''v'')). NC_findreserved (att_name x) = None"
    by (simp add: fresh_var_def)
  have g: "\<forall>x\<in>set (grp_att root_grp). group_visible root_grp (att_name x)"
    by (simp add: root_grp_def)
  have s1: "strcmp ''title'' NC3_STRICT_ATT_NAME \<noteq> 0"
    by (simp add: strcmp_zero_iff NC3_STRICT_ATT_NAME_def)
  have h1: "\<not> (grp_parent root_grp = None \<and>
      (case NC_findreserved ''title'' of None \<Rightarrow> False | Some ra \<Rightarrow> NAMEONLYFLAG \<in> flags ra))"
    by (simp add: NC_findreserved_ordinary)
  have n: "H5A_name (int_scalar_att nm) = nm" "\<not> H5Aopen (int_scalar_att nm) < 0"
    "\<not> H5Aget_name (int_scalar_att nm) < 0" for nm
    by (simp_all add: int_scalar_att_def)
  have p: "grp_parent (g\<lparr>grp_att := x\<rparr>) = grp_parent g" for g x by simp
  have hid: "grp_parent (root_grp\<lparr>grp_att := x\<rparr>) = None \<and>
      (case NC_findreserved (H5A_name (int_scalar_att ''_NCProperties'')) of None \<Rightarrow> False
       | Some ra \<Rightarrow> NAMEONLYFLAG \<in> flags ra)" for x
    by (simp add: n NC_findreserved_entries root_grp_def)
  have st: "strcmp (H5A_name (int_scalar_att ''_nc3_strict'')) NC3_STRICT_ATT_NAME = 0"
    by (simp add: n strcmp_zero_iff NC3_STRICT_ATT_NAME_def)
  have ns: "strcmp (H5A_name (int_scalar_att ''_NCProperties'')) NC3_STRICT_ATT_NAME \<noteq> 0"
    by (simp add: n strcmp_zero_iff NC3_STRICT_ATT_NAME_def)
  have grp: "map att_name (grp_att (snd (snd
      (nc4_read_grp_atts no_user_types all_types_known all_types_known
         [int_scalar_att ''title'', int_scalar_att ''_NCProperties'', int_scalar_att ''_nc3_strict'']
         open_file root_grp)))) = [''title'']"
    unfolding nc4_read_grp_atts_def loop_int_scalar [OF s1 h1]
      loop_hidden [OF n(2) n(3) ns hid] loop_strict [OF n(2) n(3) st]
    by (simp add: root_grp_def new_att_def)
  have var: "map att_name (var_att (snd
      (nc4_read_var_atts no_user_types all_types_known (fresh_var ''v'')
         [int_scalar_att ''units'', int_scalar_att ''_Netcdf4Dimid'', int_scalar_att ''CLASS'']))) = [''units'']"
    by (simp add: nc4_read_var_atts_def att_read_var_callbk_int_scalar NC_findreserved_ordinary
        NC_findreserved_entries fresh_var_def new_att_def)
  from reserved_attribute_hiding [OF v g] var grp show ?thesis by simp
qed


section \<open>The chunk cache setter\<close>

lemma nc_set_chunk_cache_nan:
  "nc_set_chunk_cache size' nelems NaN globals =
     (NC_NOERR, \<lparr>nc4_chunk_cache_size = size', nc4_chunk_cache_nelems = nelems,
                 nc4_chunk_cache_preemption = NaN\<rparr>)"
  by (simp add: nc_set_chunk_cache_def)



section \<open>Leaving define mode\<close>

lemma bit_NC_INDEF: "bit NC_INDEF n \<longleftrightarrow> n = 3"
  unfolding NC_INDEF_def using bit_exp_iff [where ?'a = "32 word", of 3 n] by auto

lemma indef_cleared: "(f XOR NC_INDEF) AND NC_INDEF = 0" if "f AND NC_INDEF \<noteq> 0"
proof -
  have f3: "bit f 3"
  proof (rule ccontr)
    assume n: "\<not> bit f 3"
    have "f AND NC_INDEF = 0"
    proof (rule bit_eqI)
      fix k
      show "bit (f AND NC_INDEF) k = bit (0 :: 32 word) k"
        using n bit_NC_INDEF [of k] by (auto simp add: bit_and_iff)
    qed
    with that show False by simp
  qed
  show ?thesis
  proof (rule bit_eqI)
    fix k
    show "bit ((f XOR NC_INDEF) AND NC_INDEF) k = bit (0 :: 32 word) k"
      using f3 bit_NC_INDEF [of k] by (auto simp add: bit_and_iff bit_xor_iff)
  qed
qed

lemma nc4_enddef_netcdf4_file_groups:
  "h5_allgroups (snd (nc4_enddef_netcdf4_file env h5)) = h5_allgroups h5"
  by (simp add: nc4_enddef_netcdf4_file_def sync_netcdf4_file_def Let_def)

lemma sync_netcdf4_file_data_mode:
  "h5_flags h5 AND NC_INDEF = 0 \<Longrightarrow> snd (sync_netcdf4_file env h5) = h5"
  by (simp add: sync_netcdf4_file_def Let_def)

lemma nc4_enddef_netcdf4_file_flags:
  assumes "nc4_enddef_netcdf4_file env h5 = (r, h5')" "r \<noteq> NC_ENOTINDEFINE"
  shows "h5_flags h5' AND NC_INDEF = 0 \<and> h5_allgroups h5' = h5_allgroups h5"
proof (cases "h5_flags h5 AND NC_INDEF = 0")
  case True
  with assms show ?thesis by (simp add: nc4_enddef_netcdf4_file_def)
next
  case False
  let ?h = "h5\<lparr>h5_flags := h5_flags h5 XOR NC_INDEF, h5_redef := False\<rparr>"
  have c: "h5_flags ?h AND NC_INDEF = 0" using indef_cleared [OF False] by simp
  from assms False have "h5' = snd (sync_netcdf4_file env ?h)"
    by (simp add: nc4_enddef_netcdf4_file_def)
  then have "h5' = ?h" using sync_netcdf4_file_data_mode [OF c] by simp
  with c show ?thesis by simp
qed

lemma NC4_enddef_mark_same: "NC4_enddef_mark vars = Some vars' \<Longrightarrow> vars' = vars"
  by (induction vars arbitrary: vars' rule: NC4_enddef_mark.induct) auto

lemma NC4_enddef_mark_no_null: "None \<notin> set vars \<Longrightarrow> NC4_enddef_mark vars = Some vars"
  by (induction vars rule: NC4_enddef_mark.induct) auto

lemma NC4_enddef_returns:
  assumes "NC4_enddef env files ncid = Returns r files'"
    and "r \<noteq> NC_EBADID" "r \<noteq> NC_EBADGRPID"
  shows "\<exists>h5 g r' h5'. files (ncid AND FILE_ID_MASK) = Some h5
          \<and> nc4_rec_find_grp h5 (ncid AND GRP_ID_MASK) = Some g
          \<and> NC4_enddef_mark (grp_vars (h5_allgroups h5 ! g)) = Some (grp_vars (h5_allgroups h5 ! g))
          \<and> nc4_enddef_netcdf4_file env h5 = (r, h5')
          \<and> files' = files(ncid AND FILE_ID_MASK := Some h5')"
proof -
  from assms obtain h5 where f: "files (ncid AND FILE_ID_MASK) = Some h5"
    by (auto simp: NC4_enddef_def nc4_find_nc_file_def split: option.splits)
  from assms f obtain g where g: "nc4_rec_find_grp h5 (ncid AND GRP_ID_MASK) = Some g"
    by (auto simp: NC4_enddef_def nc4_find_nc_file_def split: option.splits)
  from assms f g obtain vars where
    m: "NC4_enddef_mark (grp_vars (h5_allgroups h5 ! g)) = Some vars"
    by (auto simp: NC4_enddef_def nc4_find_nc_file_def split: option.splits)
  from NC4_enddef_mark_same [OF m] have v: "vars = grp_vars (h5_allgroups h5 ! g)" .
  have same: "h5\<lparr>h5_allgroups := (h5_allgroups h5)
      [g := (h5_allgroups h5 ! g)\<lparr>grp_vars := grp_vars (h5_allgroups h5 ! g)\<rparr>]\<rparr> = h5"
    by simp
  obtain r' h5' where e: "nc4_enddef_netcdf4_file env h5 = (r', h5')"
    by (cases "nc4_enddef_netcdf4_file env h5")
  from assms(1) f g m v e have "r = r' \<and> files' = files(ncid AND FILE_ID_MASK := Some h5')"
    by (simp add: NC4_enddef_def nc4_find_nc_file_def Let_def same)
  with f g m v e show ?thesis by auto
qed

text \<open>
  C7. Leaving define mode when the file is not in define mode fails with the
  not-in-define-mode error and changes nothing in the state of the file; after one
  successful call a second consecutive call fails with that error. This holds for
  \<^verbatim>\<open>nc4_enddef_netcdf4_file\<close> and for \<^verbatim>\<open>NC4_enddef\<close> on an identifier that names an open
  file and one of its groups, whose index of variables has no empty slot.
\<close>

theorem enddef_outside_define_mode:
  "(h5_flags h5 AND NC_INDEF = 0 \<longrightarrow>
      nc4_enddef_netcdf4_file env h5 = (NC_ENOTINDEFINE, h5))
   \<and> (nc4_enddef_netcdf4_file env h5 = (NC_NOERR, h5') \<longrightarrow>
      nc4_enddef_netcdf4_file env' h5' = (NC_ENOTINDEFINE, h5'))
   \<and> (nc4_find_nc_file files ncid = Some h5
       \<and> nc4_rec_find_grp h5 (ncid AND GRP_ID_MASK) = Some g
       \<and> None \<notin> set (grp_vars (h5_allgroups h5 ! g))
       \<and> h5_flags h5 AND NC_INDEF = 0 \<longrightarrow>
      NC4_enddef env files ncid = Returns NC_ENOTINDEFINE files)
   \<and> (NC4_enddef env files ncid = Returns NC_NOERR files' \<longrightarrow>
      NC4_enddef env' files' ncid = Returns NC_ENOTINDEFINE files')"
proof (intro conjI impI)
  assume "h5_flags h5 AND NC_INDEF = 0"
  then show "nc4_enddef_netcdf4_file env h5 = (NC_ENOTINDEFINE, h5)"
    by (simp add: nc4_enddef_netcdf4_file_def)
next
  assume "nc4_enddef_netcdf4_file env h5 = (NC_NOERR, h5')"
  from nc4_enddef_netcdf4_file_flags [OF this]
  show "nc4_enddef_netcdf4_file env' h5' = (NC_ENOTINDEFINE, h5')"
    by (simp add: nc4_enddef_netcdf4_file_def)
next
  assume a: "nc4_find_nc_file files ncid = Some h5
       \<and> nc4_rec_find_grp h5 (ncid AND GRP_ID_MASK) = Some g
       \<and> None \<notin> set (grp_vars (h5_allgroups h5 ! g))
       \<and> h5_flags h5 AND NC_INDEF = 0"
  then have m: "NC4_enddef_mark (grp_vars (h5_allgroups h5 ! g)) = Some (grp_vars (h5_allgroups h5 ! g))"
    by (simp add: NC4_enddef_mark_no_null)
  have same: "h5\<lparr>h5_allgroups := (h5_allgroups h5)
      [g := (h5_allgroups h5 ! g)\<lparr>grp_vars := grp_vars (h5_allgroups h5 ! g)\<rparr>]\<rparr> = h5"
    by simp
  from a have f: "files (ncid AND FILE_ID_MASK) = Some h5"
    by (simp add: nc4_find_nc_file_def)
  then have upd: "files(ncid AND FILE_ID_MASK := Some h5) = files" by (rule fun_upd_idem)
  from a m show "NC4_enddef env files ncid = Returns NC_ENOTINDEFINE files"
    by (simp add: NC4_enddef_def Let_def same nc4_enddef_netcdf4_file_def upd)
next
  assume r: "NC4_enddef env files ncid = Returns NC_NOERR files'"
  from NC4_enddef_returns [OF r] obtain h5 g h5' where
    f: "files (ncid AND FILE_ID_MASK) = Some h5"
    and g: "nc4_rec_find_grp h5 (ncid AND GRP_ID_MASK) = Some g"
    and m: "NC4_enddef_mark (grp_vars (h5_allgroups h5 ! g)) = Some (grp_vars (h5_allgroups h5 ! g))"
    and e: "nc4_enddef_netcdf4_file env h5 = (NC_NOERR, h5')"
    and f': "files' = files(ncid AND FILE_ID_MASK := Some h5')"
    by auto
  from nc4_enddef_netcdf4_file_flags [OF e] have fl: "h5_flags h5' AND NC_INDEF = 0"
    and gr: "h5_allgroups h5' = h5_allgroups h5" by simp_all
  have g': "nc4_rec_find_grp h5' (ncid AND GRP_ID_MASK) = Some g"
    using g by (simp add: nc4_rec_find_grp_def gr)
  have same: "h5'\<lparr>h5_allgroups := (h5_allgroups h5)
      [g := (h5_allgroups h5 ! g)\<lparr>grp_vars := grp_vars (h5_allgroups h5 ! g)\<rparr>]\<rparr> = h5'"
    using gr by simp
  have same2: "h5'\<lparr>h5_allgroups := h5_allgroups h5\<rparr> = h5'"
    by (simp add: gr [symmetric])
  show "NC4_enddef env' files' ncid = Returns NC_ENOTINDEFINE files'"
    using g' m fl
    by (simp add: NC4_enddef_def nc4_find_nc_file_def f' gr Let_def same same2
        nc4_enddef_netcdf4_file_def)
qed


theorem enddef_outside_define_mode_witness:
  "h5_flags open_file AND NC_INDEF = 0
   \<and> nc4_enddef_netcdf4_file sync_ok open_file = (NC_ENOTINDEFINE, open_file)
   \<and> nc4_enddef_netcdf4_file sync_ok created_file = (NC_NOERR, created_file\<lparr>h5_flags := 0\<rparr>)
   \<and> nc4_enddef_netcdf4_file sync_ok (created_file\<lparr>h5_flags := 0\<rparr>)
       = (NC_ENOTINDEFINE, created_file\<lparr>h5_flags := 0\<rparr>)
   \<and> NC4_enddef sync_ok (one_file open_file) 0x10000 = Returns NC_ENOTINDEFINE (one_file open_file)
   \<and> NC4_enddef sync_ok (one_file created_file) 0x10000
       = Returns NC_NOERR (one_file (created_file\<lparr>h5_flags := 0\<rparr>))
   \<and> NC4_enddef sync_ok (one_file (created_file\<lparr>h5_flags := 0\<rparr>)) 0x10000
       = Returns NC_ENOTINDEFINE (one_file (created_file\<lparr>h5_flags := 0\<rparr>))"
proof -
  have m: "(0x10000 :: 32 word) AND FILE_ID_MASK = 0x10000" "(0x10000 :: 32 word) AND GRP_ID_MASK = 0"
    by (simp_all add: FILE_ID_MASK_def GRP_ID_MASK_def)
  have a: "h5_flags open_file AND NC_INDEF = 0" by (simp add: open_file_def)
  have e1: "nc4_enddef_netcdf4_file sync_ok created_file = (NC_NOERR, created_file\<lparr>h5_flags := 0\<rparr>)"
    by (simp add: nc4_enddef_netcdf4_file_def sync_netcdf4_file_def created_file_def open_file_def
        NC_INDEF_def NC_NOWRITE_def NC_CLASSIC_MODEL_def sync_ok_def Let_def)
  have u: "(one_file h)(0x10000 := Some h') = one_file h'" for h h'
    by (rule ext) simp
  have f: "nc4_find_nc_file (one_file h) 0x10000 = Some h" for h
    by (simp add: nc4_find_nc_file_def m)
  have g: "nc4_rec_find_grp open_file ((0x10000 :: 32 word) AND GRP_ID_MASK) = Some 0"
    by (simp add: nc4_rec_find_grp_def m open_file_def)
  have n: "None \<notin> set (grp_vars (h5_allgroups open_file ! 0))"
    by (simp add: open_file_def root_grp_def)
  have e2: "NC4_enddef sync_ok (one_file created_file) 0x10000
       = Returns NC_NOERR (one_file (created_file\<lparr>h5_flags := 0\<rparr>))"
  proof -
    have gg: "nc4_rec_find_grp created_file 0 = Some 0"
      by (simp add: nc4_rec_find_grp_def created_file_def)
    have same: "created_file\<lparr>h5_allgroups := (h5_allgroups created_file)
        [0 := (h5_allgroups created_file ! 0)\<lparr>grp_vars := [Some (fresh_var ''v'')]\<rparr>]\<rparr> = created_file"
      by (simp add: created_file_def)
    have mk: "NC4_enddef_mark (grp_vars (h5_allgroups created_file ! 0)) = Some [Some (fresh_var ''v'')]"
      by (simp add: created_file_def)
    show ?thesis
      by (simp add: NC4_enddef_def f m gg mk Let_def same e1 u)
  qed
  from enddef_outside_define_mode [of open_file sync_ok open_file sync_ok "one_file open_file"
      "0x10000" 0 "one_file open_file"]
    enddef_outside_define_mode [of created_file sync_ok "created_file\<lparr>h5_flags := 0\<rparr>" sync_ok
      "one_file created_file" "0x10000" 0 "one_file (created_file\<lparr>h5_flags := 0\<rparr>)"]
    a e1 e2 f g n
  show ?thesis by simp
qed

text \<open>
  C1. On leaving define mode every variable of the group should be marked as written.
  \<^verbatim>\<open>NC4_enddef\<close> does not do so: on a file just created with one variable in its root
  group the call succeeds and the variable is still unwritten, where the loop at the
  end of \<^verbatim>\<open>nc4_rec_read_metadata\<close> marks it.
\<close>

theorem NC4_enddef_leaves_unwritten:
  "NC4_enddef sync_ok (one_file created_file) 0x10000
     = Returns NC_NOERR (one_file (created_file\<lparr>h5_flags := 0\<rparr>))
   \<and> grp_vars (h5_allgroups (created_file\<lparr>h5_flags := 0\<rparr>) ! 0) = [Some (fresh_var ''v'')]
   \<and> \<not> var_written_to (fresh_var ''v'')
   \<and> nc4_rec_read_metadata_mark [Some (fresh_var ''v'')]
       = [Some ((fresh_var ''v'')\<lparr>var_written_to := True\<rparr>)]"
proof -
  have m: "(0x10000 :: 32 word) AND FILE_ID_MASK = 0x10000" "(0x10000 :: 32 word) AND GRP_ID_MASK = 0"
    by (simp_all add: FILE_ID_MASK_def GRP_ID_MASK_def)
  have e1: "nc4_enddef_netcdf4_file sync_ok created_file = (NC_NOERR, created_file\<lparr>h5_flags := 0\<rparr>)"
    by (simp add: nc4_enddef_netcdf4_file_def sync_netcdf4_file_def created_file_def open_file_def
        NC_INDEF_def NC_NOWRITE_def NC_CLASSIC_MODEL_def sync_ok_def Let_def)
  have u: "(one_file h)(0x10000 := Some h') = one_file h'" for h h'
    by (rule ext) simp
  have f: "nc4_find_nc_file (one_file h) 0x10000 = Some h" for h
    by (simp add: nc4_find_nc_file_def m)
  have gg: "nc4_rec_find_grp created_file 0 = Some 0"
    by (simp add: nc4_rec_find_grp_def created_file_def)
  have same: "created_file\<lparr>h5_allgroups := (h5_allgroups created_file)
      [0 := (h5_allgroups created_file ! 0)\<lparr>grp_vars := [Some (fresh_var ''v'')]\<rparr>]\<rparr> = created_file"
    by (simp add: created_file_def)
  have mk: "NC4_enddef_mark (grp_vars (h5_allgroups created_file ! 0)) = Some [Some (fresh_var ''v'')]"
    by (simp add: created_file_def)
  have "NC4_enddef sync_ok (one_file created_file) 0x10000
       = Returns NC_NOERR (one_file (created_file\<lparr>h5_flags := 0\<rparr>))"
    by (simp add: NC4_enddef_def f m gg mk Let_def same e1 u)
  then show ?thesis
    by (simp add: created_file_def fresh_var_def)
qed

text \<open>In general a call of \<^verbatim>\<open>NC4_enddef\<close> that returns leaves every group as it was.\<close>

lemma NC4_enddef_marks_nothing:
  assumes "NC4_enddef env files ncid = Returns r files'"
    and "files (ncid AND FILE_ID_MASK) = Some h5" "files' (ncid AND FILE_ID_MASK) = Some h5'"
  shows "h5_allgroups h5' = h5_allgroups h5"
proof -
  have "files' = files \<or> h5' = snd (nc4_enddef_netcdf4_file env h5)"
    using assms
    by (auto simp: NC4_enddef_def nc4_find_nc_file_def Let_def
        dest!: NC4_enddef_mark_same split: option.splits prod.splits)
  then show ?thesis
    using assms(2,3) by (auto simp: nc4_enddef_netcdf4_file_groups)
qed


section \<open>The dimension-id counter\<close>

lemma sint_succ: "sint (x :: 32 word) < 2147483647 \<Longrightarrow> sint (x + 1) = sint x + 1"
proof -
  assume a: "sint x < 2147483647"
  have "- (2 ^ 31) \<le> sint x" using sint_ge [of x] by simp
  with a have "signed_take_bit 31 (sint x + 1) = sint x + 1"
    by (simp add: signed_take_bit_int_eq_self_iff)
  then show ?thesis by (simp add: sint_word_add)
qed

lemma short_round_trip:
  assumes "- 32768 \<le> sint (x :: 32 word)" "sint x \<le> 32767"
  shows "(scast (ucast x :: 16 word) :: 32 word) = x"
proof -
  have "sint (scast (ucast x :: 16 word) :: 32 word) = sint (ucast x :: 16 word)"
    by (rule sint_up_scast) (simp add: is_up)
  also have "\<dots> = signed_take_bit 15 (uint x)"
    by (simp add: sint_uint unsigned_ucast_eq signed_take_bit_take_bit)
  also have "\<dots> = signed_take_bit 15 (sint x)"
    by (simp add: sint_uint min_def)
  also have "\<dots> = sint x"
    using assms by (simp add: signed_take_bit_int_eq_self_iff)
  finally show ?thesis by (simp add: signed_word_eqI)
qed


lemma read_scale_exit_cases:
  assumes "read_scale_exit d attid ini created rv h5 g dm = (r, h5', g', dm')"
  shows "(h5' = h5 \<and> g' = g)
       \<or> (created \<and> h5' = h5\<lparr>h5_next_dimid := scast ini\<rparr>
            \<and> g' = g\<lparr>grp_dim := butlast (grp_dim g)\<rparr>)"
  using assms by (auto simp: read_scale_exit_def nc4_dim_list_del_def Let_def split: if_splits)

lemma read_scale_reaches_creation:
  assumes "0 \<le> ds_H5Aexists d"
    and "ds_H5Aexists d \<noteq> 0 \<longrightarrow> 0 \<le> ds_H5Aopen_name d \<and> 0 \<le> ds_H5Aread d"
    and "read_scale d i nm sz mx h5 grp = (r, h5', grp', dm)"
  shows "\<exists>attid rv x dm0.
      read_scale_exit d attid (ucast (h5_next_dimid h5)) True rv
        (fst (nc4_dim_list_add
           (if ds_H5Aexists d \<noteq> 0 \<and> sint (h5_next_dimid h5) \<le> sint (ds_assigned_id d)
            then h5\<lparr>h5_next_dimid := ds_assigned_id d + 1\<rparr> else h5)
           grp nm sz (if ds_H5Aexists d \<noteq> 0 then ds_assigned_id d else -1)))
        (grp\<lparr>grp_dim := grp_dim grp @ [x]\<rparr>) dm0 = (r, h5', grp', dm)"
proof -
  have g: "butlast (grp_dim (snd (nc4_dim_list_add h g n l a))) = grp_dim g" for h g n l a
    by (simp add: nc4_dim_list_add_def Let_def)
  have u: "(snd (nc4_dim_list_add h g n l a))\<lparr>grp_dim := grp_dim g @ [y]\<rparr>
      = g\<lparr>grp_dim := grp_dim g @ [y]\<rparr>" for h g n l a y
    by (simp add: nc4_dim_list_add_def Let_def)
  have t: "\<not> (SIZEOF_SIZE_T < 8 \<and> NC_MAX_UINT < sz)" by (simp add: SIZEOF_SIZE_T_def)
  from assms show ?thesis
    unfolding read_scale_def Let_def
    by (simp add: g u t split_beta not_less [symmetric] split: if_splits del: not_less)
      blast+
qed


text \<open>
  When the creation of the dimension is reached and the dimension is not in the group
  afterwards, the recovery path has run: it leaves the group and the file as they were,
  provided the next dimension id on entry fits the \<^verbatim>\<open>short\<close> it is saved in.
\<close>

lemma read_scale_failure_restores:
  assumes ex: "0 \<le> ds_H5Aexists d"
    and op: "ds_H5Aexists d \<noteq> 0 \<longrightarrow> 0 \<le> ds_H5Aopen_name d \<and> 0 \<le> ds_H5Aread d"
    and rs: "read_scale d i nm sz mx h5 grp = (r, h5', grp', dm)"
    and gone: "length (grp_dim grp') \<le> length (grp_dim grp)"
    and lo: "- 32768 \<le> sint (h5_next_dimid h5)" and hi: "sint (h5_next_dimid h5) \<le> 32767"
  shows "h5' = h5 \<and> grp' = grp"
proof -
  let ?a = "if ds_H5Aexists d \<noteq> 0 then ds_assigned_id d else -1"
  let ?h5a = "if ds_H5Aexists d \<noteq> 0 \<and> sint (h5_next_dimid h5) \<le> sint (ds_assigned_id d)
            then h5\<lparr>h5_next_dimid := ds_assigned_id d + 1\<rparr> else h5"
  let ?h5b = "fst (nc4_dim_list_add ?h5a grp nm sz ?a)"
  from read_scale_reaches_creation [OF ex op rs] obtain attid rv x dm0 where
    e: "read_scale_exit d attid (ucast (h5_next_dimid h5)) True rv ?h5b
          (grp\<lparr>grp_dim := grp_dim grp @ [x]\<rparr>) dm0 = (r, h5', grp', dm)"
    by blast
  from read_scale_exit_cases [OF e] gone
  have h: "h5' = ?h5b\<lparr>h5_next_dimid := scast (ucast (h5_next_dimid h5) :: 16 word)\<rparr>"
    and g: "grp' = grp" by auto
  have "?h5b\<lparr>h5_next_dimid := v\<rparr> = h5\<lparr>h5_next_dimid := v\<rparr>" for v
    by (simp add: nc4_dim_list_add_def Let_def)
  with h short_round_trip [OF lo hi] have "h5' = h5" by simp
  with g show ?thesis by simp
qed

text \<open>
  When the hidden attribute is read and the new dimension is kept, the next dimension id
  is above the stored id afterwards, provided neither the stored id nor the next id on
  entry is the largest \<^verbatim>\<open>int\<close>.
\<close>

lemma read_scale_advances:
  assumes ex: "0 < ds_H5Aexists d"
    and op: "0 \<le> ds_H5Aopen_name d" "0 \<le> ds_H5Aread d"
    and rs: "read_scale d i nm sz mx h5 grp = (r, h5', grp', dm)"
    and kept: "length (grp_dim grp') = Suc (length (grp_dim grp))"
    and b1: "sint (ds_assigned_id d) < 2147483647"
    and b2: "sint (h5_next_dimid h5) < 2147483647"
  shows "sint (ds_assigned_id d) < sint (h5_next_dimid h5')"
proof -
  let ?h5a = "if sint (h5_next_dimid h5) \<le> sint (ds_assigned_id d)
            then h5\<lparr>h5_next_dimid := ds_assigned_id d + 1\<rparr> else h5"
  let ?h5b = "fst (nc4_dim_list_add ?h5a grp nm sz (ds_assigned_id d))"
  have ex0: "0 \<le> ds_H5Aexists d" "ds_H5Aexists d \<noteq> 0" using ex by simp_all
  have op': "ds_H5Aexists d \<noteq> 0 \<longrightarrow> 0 \<le> ds_H5Aopen_name d \<and> 0 \<le> ds_H5Aread d"
    using op by simp
  from read_scale_reaches_creation [OF ex0(1) op' rs] ex0(2) obtain attid rv x dm0 where
    e: "read_scale_exit d attid (ucast (h5_next_dimid h5)) True rv ?h5b
          (grp\<lparr>grp_dim := grp_dim grp @ [x]\<rparr>) dm0 = (r, h5', grp', dm)"
    by auto
  from read_scale_exit_cases [OF e] kept have h: "h5' = ?h5b" by auto
  have a: "sint (ds_assigned_id d) < sint (h5_next_dimid ?h5a)"
    using b1 by (simp add: sint_succ)
  have b: "sint (h5_next_dimid ?h5a) < 2147483647 \<or> 0 \<le> sint (ds_assigned_id d)"
    using b1 b2 by (auto simp: sint_succ)
  have "sint (ds_assigned_id d) < sint (h5_next_dimid ?h5b)"
  proof (cases "0 \<le> sint (ds_assigned_id d)")
    case True
    then have "h5_next_dimid ?h5b = h5_next_dimid ?h5a"
      by (simp add: nc4_dim_list_add_def Let_def)
    with a show ?thesis by simp
  next
    case False
    with b have lt: "sint (h5_next_dimid ?h5a) < 2147483647" by simp
    from False have "h5_next_dimid ?h5b = h5_next_dimid ?h5a + 1"
      by (simp add: nc4_dim_list_add_def Let_def)
    then have "sint (h5_next_dimid ?h5b) = sint (h5_next_dimid ?h5a) + 1"
      using sint_succ [OF lt] by simp
    with a show ?thesis by simp
  qed
  with h show ?thesis by simp
qed

text \<open>
  C9. After a scale carrying the hidden dimension-id attribute is read, the file's next
  dimension id should be strictly greater than the stored id. For a stored id of
  2147483647 the source computes \<^verbatim>\<open>assigned_id + 1\<close>, which overflows: the scale is read
  successfully, the dimension gets the id 2147483647, and the next dimension id is
  -2147483648.
\<close>

theorem read_scale_max_id:
  "read_scale max_id_scale 7 ''x'' 10 10 open_file root_grp =
     (NC_NOERR, open_file\<lparr>h5_next_dimid := 0x80000000\<rparr>,
      root_grp\<lparr>grp_dim := [\<lparr>dim_name = ''x'', dim_id = 0x7FFFFFFF, dim_len = 10,
         dim_unlimited = False, dim_too_long = False, dim_hdf_dimscaleid = 0\<rparr>]\<rparr>,
      Some \<lparr>dim_name = ''x'', dim_id = 0x7FFFFFFF, dim_len = 10,
         dim_unlimited = False, dim_too_long = False, dim_hdf_dimscaleid = 0\<rparr>)
   \<and> sint (ds_assigned_id max_id_scale) = 2147483647
   \<and> sint (0x80000000 :: 32 word) = - 2147483648"
  by (simp add: read_scale_def read_scale_exit_def max_id_scale_def plain_dataset_def
      open_file_def root_grp_def nc4_dim_list_add_def Let_def SIZEOF_SIZE_T_def
      H5S_UNLIMITED_def NC_UNLIMITED_def)

text \<open>
  C10. When reading a scale fails after the dimension was created, the dimension should
  be removed and the next dimension id restored to its value before the call. The
  source keeps that value in a \<^verbatim>\<open>short\<close>: with a next id of 40000 on entry and a failing
  length lookup, the dimension is removed but the next id comes back as -25536 (and the
  function returns the code of the deletion, \<^verbatim>\<open>NC_NOERR\<close>).
\<close>

theorem read_scale_rollback_truncates:
  "read_scale failing_scale 7 ''t'' 0 H5S_UNLIMITED many_dims_file root_grp =
     (NC_NOERR, many_dims_file\<lparr>h5_next_dimid := 0xFFFF9C40\<rparr>, root_grp, None)
   \<and> sint (h5_next_dimid many_dims_file) = 40000
   \<and> sint (0xFFFF9C40 :: 32 word) = - 25536"
  by (simp add: read_scale_def read_scale_exit_def failing_scale_def plain_dataset_def
      many_dims_file_def open_file_def root_grp_def nc4_dim_list_add_def nc4_dim_list_del_def
      Let_def SIZEOF_SIZE_T_def H5S_UNLIMITED_def NC_UNLIMITED_def DIM_WITHOUT_VARIABLE_def)



section \<open>Errors during the walk\<close>





lemma nc4_rec_read_metadata_exit_error:
  "retval \<noteq> 0 \<Longrightarrow> nc4_rec_read_metadata_exit grps retval \<noteq> 0"
  by (simp add: nc4_rec_read_metadata_exit_def)


text \<open>An error in the loop over the child groups is an error of the walk of the group.\<close>

lemma nc4_rec_read_metadata_children_fail:
  assumes "H5iterate nc4_rec_read_metadata_cb (g_links g) ([], h5, h5_allgroups h5 ! gid)
      = (r, grps, h5a, grp)"
    and "fst (nc4_rec_read_metadata_children grps gid
          (h5a\<lparr>h5_allgroups := (h5_allgroups h5a)[gid := grp]\<rparr>)) \<noteq> NC_NOERR"
  shows "fst (nc4_rec_read_metadata g gid h5) \<noteq> NC_NOERR"
proof -
  obtain rc h5c where c: "nc4_rec_read_metadata_children grps gid
          (h5a\<lparr>h5_allgroups := (h5_allgroups h5a)[gid := grp]\<rparr>) = (rc, h5c)"
    by (cases "nc4_rec_read_metadata_children grps gid
          (h5a\<lparr>h5_allgroups := (h5_allgroups h5a)[gid := grp]\<rparr>)")
  with assms(2) have "rc \<noteq> 0" by simp
  then show ?thesis
    using nc4_rec_read_metadata_exit_error [of NC_EHDFERR grps]
      nc4_rec_read_metadata_exit_error [of rc grps]
    by (subst nc4_rec_read_metadata.simps) (simp add: assms(1) c Let_def)
qed








end
